theory Spec2Isabelle
  imports Main
begin

section \<open>SEP-10 web authentication utilities (namespace Utils)\<close>

text \<open>
  The module builds, reads and verifies SEP-10 challenge transactions. It is written
  against the base SDK (keypairs, the transaction builder, the XDR codec), which is not
  part of the module: the base SDK is a record of functions passed to every operation.
  The wall clock (\<open>Math.floor(Date.now() / 1000)\<close>) and the random nonce
  (\<open>randomBytes(48).toString("base64")\<close>) are explicit arguments.
  Exceptions are values: a function that can throw returns \<open>error + 'a\<close>.
\<close>

subsection \<open>Errors\<close>

datatype error =
    Error string
  | InvalidSep10ChallengeError string

subsection \<open>Transactions as the base SDK exposes them\<close>

record decorated_signature =
  hint :: string
  signature :: string

record operation =
  op_type :: string
  op_source :: "string option"
  op_name :: string
  op_value :: string

record time_bounds =
  minTime :: string
  maxTime :: string

record transaction =
  source :: string
  sequence :: string
  fee :: string
  timeBounds :: "time_bounds option"
  operations :: "operation list"
  signatures :: "decorated_signature list"
  networkPassphrase :: string

record fee_bump_transaction =
  feeSource :: string
  innerTransaction :: transaction
  fb_signatures :: "decorated_signature list"

datatype envelope =
    Transaction transaction
  | FeeBumpTransaction fee_bump_transaction

fun env_signatures :: "envelope \<Rightarrow> decorated_signature list" where
  "env_signatures (Transaction t) = signatures t"
| "env_signatures (FeeBumpTransaction f) = fb_signatures f"

text \<open>
  The part of the base SDK the module calls. \<open>'kp\<close> is the type of Keypair objects and
  \<open>'w\<close> the type of encoded envelopes (the base64 XDR text, opaque to this module).
  A collaborator call that can throw returns the thrown message or error on the left.
\<close>

record ('kp, 'w) base_sdk =
  publicKey :: "'kp \<Rightarrow> string"
  fromPublicKey :: "string \<Rightarrow> string + 'kp"
  signatureHint :: "'kp \<Rightarrow> string"
  sign :: "'kp \<Rightarrow> string \<Rightarrow> string"
  verify :: "'kp \<Rightarrow> string \<Rightarrow> string \<Rightarrow> bool"
  hash :: "envelope \<Rightarrow> string"
  toXDR :: "envelope \<Rightarrow> error + 'w"
  fromXDR :: "'w \<Rightarrow> string \<Rightarrow> error + envelope"
  BASE_FEE :: string
  TimeoutInfinite :: int

subsection \<open>JavaScript primitives used by the module\<close>

text \<open>\<open>s.startsWith(c)\<close> and \<open>s.charAt(0) === c\<close> for a one-character \<open>c\<close>.\<close>

fun startsWith :: "string \<Rightarrow> char \<Rightarrow> bool" where
  "startsWith [] c = False"
| "startsWith (x # xs) c = (x = c)"

text \<open>
  A JavaScript \<open>Set\<close> of strings keeps insertion order; \<open>Array.from\<close> lists it in that
  order. \<open>set_add\<close> is \<open>Set.prototype.add\<close> on the list of members.
\<close>

definition set_add :: "string list \<Rightarrow> string \<Rightarrow> string list" where
  "set_add xs x = (if x \<in> set xs then xs else xs @ [x])"

text \<open>
  \<open>Number.parseInt(s, 10)\<close>: leading white space is skipped, then an optional sign, then
  the longest run of decimal digits is read; with no digit the result is NaN, here
  \<open>None\<close>. The result is the mathematical integer (a JavaScript number is a double:
  the two agree below \<open>2^53\<close>, and the comparisons made here against the clock and
  against \<open>0\<close> have the same outcome on the rounded value). Strings are ASCII.
\<close>

definition is_space :: "char \<Rightarrow> bool" where
  "is_space c = ((of_char c :: nat) \<in> {9, 10, 11, 12, 13, 32})"

definition is_digit :: "char \<Rightarrow> bool" where
  "is_digit c = (48 \<le> (of_char c :: nat) \<and> (of_char c :: nat) \<le> 57)"

definition digit_val :: "char \<Rightarrow> nat" where
  "digit_val c = of_char c - 48"

definition digits_value :: "string \<Rightarrow> nat" where
  "digits_value ds = foldl (\<lambda>acc c. acc * 10 + digit_val c) 0 ds"

definition parseInt :: "string \<Rightarrow> int option" where
  "parseInt s =
     (let t = dropWhile is_space s;
          negative = startsWith t (CHR ''-'');
          u = (if startsWith t (CHR ''-'') \<or> startsWith t (CHR ''+'') then tl t else t);
          z = takeWhile is_digit u
      in if z = [] then None
         else Some (if negative then - int (digits_value z) else int (digits_value z)))"

text \<open>
  The decimal rendering of an integer (\<open>toString()\<close> of a number or of a 64-bit
  integer of the base SDK, and \<open>${n}\<close> in a template literal).
\<close>

fun show_nat :: "nat \<Rightarrow> string" where
  "show_nat n =
     (if n < 10 then [char_of (48 + n)]
      else show_nat (n div 10) @ [char_of (48 + n mod 10)])"

declare show_nat.simps [simp del]

definition show_int :: "int \<Rightarrow> string" where
  "show_int i = (if i < 0 then CHR ''-'' # show_nat (nat (- i)) else show_nat (nat i))"

subsection \<open>gatherTxSigners\<close>

text \<open>
  The inner loop of gatherTxSigners over the pool of signatures not yet consumed: the
  first signature whose hint is the keypair's and which verifies is spliced out of the
  pool. \<open>None\<close>: the loop ran to its end without a match.
\<close>

fun match_signature ::
  "('kp, 'w) base_sdk \<Rightarrow> 'kp \<Rightarrow> string \<Rightarrow> decorated_signature list
    \<Rightarrow> decorated_signature list option" where
  "match_signature sdk keypair hashedSignatureBase [] = None"
| "match_signature sdk keypair hashedSignatureBase (decSig # rest) =
     (if hint decSig \<noteq> signatureHint sdk keypair
      then map_option ((#) decSig) (match_signature sdk keypair hashedSignatureBase rest)
      else if verify sdk keypair hashedSignatureBase (signature decSig)
      then Some rest
      else map_option ((#) decSig) (match_signature sdk keypair hashedSignatureBase rest))"

text \<open>
  The outer loop, over the candidate signers, with the pool \<open>txSignatures\<close> and the set
  \<open>signersFound\<close> as loop state. It returns both, so that the signatures left over can
  be spoken about.
\<close>

fun gather_loop ::
  "('kp, 'w) base_sdk \<Rightarrow> string \<Rightarrow> string list \<Rightarrow> decorated_signature list \<Rightarrow> string list
    \<Rightarrow> error + (string list \<times> decorated_signature list)" where
  "gather_loop sdk hashedSignatureBase [] txSignatures signersFound =
     Inr (signersFound, txSignatures)"
| "gather_loop sdk hashedSignatureBase (signer # rest) txSignatures signersFound =
     (if txSignatures = [] then Inr (signersFound, txSignatures)
      else case fromPublicKey sdk signer of
        Inl msg \<Rightarrow> Inl (InvalidSep10ChallengeError (''Signer is not a valid address: '' @ msg))
      | Inr keypair \<Rightarrow>
          (case match_signature sdk keypair hashedSignatureBase txSignatures of
             None \<Rightarrow> gather_loop sdk hashedSignatureBase rest txSignatures signersFound
           | Some pool \<Rightarrow>
               gather_loop sdk hashedSignatureBase rest pool (set_add signersFound signer)))"

definition gatherTxSigners ::
  "('kp, 'w) base_sdk \<Rightarrow> envelope \<Rightarrow> string list \<Rightarrow> error + string list" where
  "gatherTxSigners sdk transaction signers =
     (case gather_loop sdk (hash sdk transaction) signers (env_signatures transaction) [] of
        Inl e \<Rightarrow> Inl e
      | Inr (signersFound, pool) \<Rightarrow> Inr signersFound)"

definition verifyTxSignedBy :: "('kp, 'w) base_sdk \<Rightarrow> envelope \<Rightarrow> string \<Rightarrow> error + bool" where
  "verifyTxSignedBy sdk transaction accountID =
     (case gatherTxSigners sdk transaction [accountID] of
        Inl e \<Rightarrow> Inl e
      | Inr found \<Rightarrow> Inr (length found \<noteq> 0))"

subsection \<open>validateTimebounds and readChallengeTx\<close>

text \<open>
  \<open>now\<close> is \<open>Math.floor(Date.now() / 1000)\<close> at the time of the call. A comparison
  with NaN is false.
\<close>

definition validateTimebounds :: "transaction \<Rightarrow> int \<Rightarrow> bool" where
  "validateTimebounds transaction now =
     (case timeBounds transaction of
        None \<Rightarrow> False
      | Some tb \<Rightarrow>
          (case parseInt (minTime tb) of
             None \<Rightarrow> False
           | Some lo \<Rightarrow>
               (case parseInt (maxTime tb) of
                  None \<Rightarrow> False
                | Some hi \<Rightarrow> now \<ge> lo \<and> now \<le> hi)))"

text \<open>
  The \<open>homeDomains\<close> argument at run time: a string, an array of strings, a falsy value
  that is not a string (\<open>undefined\<close>, \<open>null\<close>, \<open>0\<close>, \<open>false\<close>), or a truthy value of
  another type, carried with its \<open>typeof\<close>.
\<close>

datatype home_domains =
    HDString string
  | HDArray "string list"
  | HDFalsy
  | HDOther string

record challenge =
  tx :: transaction
  clientAccountID :: string
  matchedHomeDomain :: string

text \<open>The loop over the operations after the first one; \<open>None\<close>: nothing thrown.\<close>

fun check_subsequent :: "string \<Rightarrow> operation list \<Rightarrow> error option" where
  "check_subsequent serverAccountID [] = None"
| "check_subsequent serverAccountID (opn # rest) =
     (if op_type opn \<noteq> ''manageData''
      then Some (InvalidSep10ChallengeError
        (''The transaction has operations that are not of type '' @ [CHR 0x27] @ ''manageData'' @ [CHR 0x27]))
      else if op_source opn \<noteq> Some serverAccountID
      then Some (InvalidSep10ChallengeError ''The transaction has operations that are unrecognized'')
      else check_subsequent serverAccountID rest)"

text \<open>
  The value of \<open>matchedHomeDomain\<close> after the branch on the type of \<open>homeDomains\<close>
  (a string or an array at that point); \<open>None\<close> is \<open>undefined\<close>.
\<close>

fun match_home_domain :: "home_domains \<Rightarrow> string \<Rightarrow> string option" where
  "match_home_domain (HDString d) name = (if d @ '' auth'' = name then Some d else None)"
| "match_home_domain (HDArray ds) name = List.find (\<lambda>domain. domain @ '' auth'' = name) ds"
| "match_home_domain HDFalsy name = None"
| "match_home_domain (HDOther ty) name = None"

definition domain_mismatch :: error where
  "domain_mismatch = InvalidSep10ChallengeError
     (''Invalid homeDomains: the transaction'' @ [CHR 0x27]
       @ ''s operation key name does not match the expected home domain'')"

definition expired :: error where
  "expired = InvalidSep10ChallengeError ''The transaction has expired''"

definition readChallengeTx ::
  "('kp, 'w) base_sdk \<Rightarrow> 'w \<Rightarrow> string \<Rightarrow> string \<Rightarrow> home_domains \<Rightarrow> int \<Rightarrow> error + challenge" where
  "readChallengeTx sdk challengeTx serverAccountID passphrase homeDomains now =
     (if startsWith serverAccountID (CHR ''M'')
      then Inl (Error ''Invalid serverAccountID: multiplexed accounts are not supported.'')
      else (case fromXDR sdk challengeTx passphrase of
        Inl e \<Rightarrow> Inl e
      | Inr (FeeBumpTransaction f) \<Rightarrow> Inl (InvalidSep10ChallengeError
          ''Invalid challenge: expected a Transaction but received a FeeBumpTransaction'')
      | Inr (Transaction transaction) \<Rightarrow>
         (if parseInt (sequence transaction) \<noteq> Some 0
          then Inl (InvalidSep10ChallengeError ''The transaction sequence number should be zero'')
          else if source transaction \<noteq> serverAccountID
          then Inl (InvalidSep10ChallengeError
            (''The transaction source account is not equal to the server'' @ [CHR 0x27] @ ''s account''))
          else (case operations transaction of
            [] \<Rightarrow> Inl (InvalidSep10ChallengeError
              ''The transaction should contain at least one operation'')
          | operation # subsequentOperations \<Rightarrow>
            (case op_source operation of
              None \<Rightarrow> Inl (InvalidSep10ChallengeError
                (''The transaction'' @ [CHR 0x27] @ ''s operation should contain a source account''))
            | Some clientAccount \<Rightarrow>
             (if clientAccount = []
              then Inl (InvalidSep10ChallengeError
                (''The transaction'' @ [CHR 0x27] @ ''s operation should contain a source account''))
              else if op_type operation \<noteq> ''manageData''
              then Inl (InvalidSep10ChallengeError
                (''The transaction'' @ [CHR 0x27] @ ''s operation type should be ''
                  @ [CHR 0x27] @ ''manageData'' @ [CHR 0x27]))
              else if (case timeBounds transaction of
                         None \<Rightarrow> False
                       | Some tb \<Rightarrow> parseInt (maxTime tb) = Some (TimeoutInfinite sdk))
              then Inl (InvalidSep10ChallengeError
                ''The transaction requires non-infinite timebounds'')
              else if \<not> validateTimebounds transaction now
              then Inl expired
              else if homeDomains = HDFalsy \<or> homeDomains = HDString []
              then Inl (InvalidSep10ChallengeError
                ''Invalid homeDomains: a home domain must be provided for verification'')
              else (case homeDomains of
                HDOther ty \<Rightarrow> Inl (InvalidSep10ChallengeError
                  (''Invalid homeDomains: homeDomains type is '' @ ty
                    @ '' but should be a string or an array''))
              | _ \<Rightarrow>
                 (case match_home_domain homeDomains (op_name operation) of
                    None \<Rightarrow> Inl domain_mismatch
                  | Some matched \<Rightarrow>
                     (if matched = [] then Inl domain_mismatch
                      else (case check_subsequent serverAccountID subsequentOperations of
                              Some e \<Rightarrow> Inl e
                            | None \<Rightarrow> Inr \<lparr>tx = transaction,
                                clientAccountID = clientAccount,
                                matchedHomeDomain = matched\<rparr>))))))))))"

subsection \<open>buildChallengeTx\<close>

text \<open>
  The transaction builder of the base SDK is not part of this module; the three
  definitions below stand for the calls that buildChallengeTx makes to it. What the
  builder rejects (an address it cannot decode, a key name that is too long) surfaces
  in \<open>toXDR\<close>, which can throw.
\<close>

text \<open>
  Modelled from the spec: \<open>Operation.manageData({name, value, source})\<close> of the base
  SDK, a manage-data operation with the given source, key name and value.
\<close>

definition manageData :: "string \<Rightarrow> string \<Rightarrow> string \<Rightarrow> operation" where
  "manageData name val src =
     \<lparr>op_type = ''manageData'', op_source = Some src, op_name = name, op_value = val\<rparr>"

text \<open>
  Modelled from the spec: \<open>new TransactionBuilder(account, {fee, networkPassphrase,
  timebounds}) ... build()\<close> of the base SDK. The transaction has the account as
  source, the account's sequence number plus one as sequence (the account is created
  with -1, so that the sequence reads 0), the given time bounds and operations, and no
  signature. Numbers are stored in decimal.
\<close>

definition build ::
  "('kp, 'w) base_sdk \<Rightarrow> string \<Rightarrow> int \<Rightarrow> string \<Rightarrow> int \<Rightarrow> int \<Rightarrow> operation list \<Rightarrow> transaction" where
  "build sdk accountId accountSequence passphrase lo hi ops =
     \<lparr>source = accountId, sequence = show_int (accountSequence + 1), fee = BASE_FEE sdk,
      timeBounds = Some \<lparr>minTime = show_int lo, maxTime = show_int hi\<rparr>,
      operations = ops, signatures = [], networkPassphrase = passphrase\<rparr>"

text \<open>
  Modelled from the spec: \<open>transaction.sign(keypair)\<close> of the base SDK, which appends
  the keypair's signature of the transaction hash, with the keypair's hint, to the
  signatures.
\<close>

definition sign_transaction :: "('kp, 'w) base_sdk \<Rightarrow> transaction \<Rightarrow> 'kp \<Rightarrow> transaction" where
  "sign_transaction sdk transaction keypair =
     transaction\<lparr>signatures := signatures transaction @
       [\<lparr>hint = signatureHint sdk keypair,
         signature = sign sdk keypair (hash sdk (Transaction transaction))\<rparr>]\<rparr>"

text \<open>
  \<open>now\<close> is the clock at the call and \<open>val\<close> the 48 random bytes in base64.
\<close>

definition buildChallengeTx ::
  "('kp, 'w) base_sdk \<Rightarrow> 'kp \<Rightarrow> string \<Rightarrow> string \<Rightarrow> int \<Rightarrow> string \<Rightarrow> int \<Rightarrow> string \<Rightarrow> error + 'w" where
  "buildChallengeTx sdk serverKeypair clientAccount homeDomain timeout passphrase now val =
     (if startsWith clientAccount (CHR ''M'')
      then Inl (Error ''Invalid clientAccountID: multiplexed accounts are not supported.'')
      else
        let transaction = build sdk (publicKey sdk serverKeypair) (- 1) passphrase
              now (now + timeout)
              [manageData (homeDomain @ '' auth'') val clientAccount]
        in toXDR sdk (Transaction (sign_transaction sdk transaction serverKeypair)))"

subsection \<open>verifyChallengeTxSigners and verifyChallengeTxThreshold\<close>

text \<open>
  The loop that fills the set \<open>clientSigners\<close>: the server's key and every signer
  whose first character is not G are passed over.
\<close>

fun collect_client_signers :: "string \<Rightarrow> string list \<Rightarrow> string list \<Rightarrow> string list" where
  "collect_client_signers serverKey [] clientSigners = clientSigners"
| "collect_client_signers serverKey (signer # rest) clientSigners =
     (if signer = serverKey then collect_client_signers serverKey rest clientSigners
      else if \<not> startsWith signer (CHR ''G'')
      then collect_client_signers serverKey rest clientSigners
      else collect_client_signers serverKey rest (set_add clientSigners signer))"

definition verifyChallengeTxSigners ::
  "('kp, 'w) base_sdk \<Rightarrow> 'w \<Rightarrow> string \<Rightarrow> string \<Rightarrow> string list \<Rightarrow> home_domains \<Rightarrow> int
    \<Rightarrow> error + string list" where
  "verifyChallengeTxSigners sdk challengeTx serverAccountID passphrase signers homeDomains now =
     (case readChallengeTx sdk challengeTx serverAccountID passphrase homeDomains now of
        Inl e \<Rightarrow> Inl e
      | Inr r \<Rightarrow>
          (case fromPublicKey sdk serverAccountID of
             Inl msg \<Rightarrow> Inl (Error (''Couldn'' @ [CHR 0x27] @ ''t infer keypair from the provided ''
               @ [CHR 0x27] @ ''serverAccountID'' @ [CHR 0x27] @ '': '' @ msg))
           | Inr serverKP \<Rightarrow>
               let clientSigners = collect_client_signers (publicKey sdk serverKP) signers []
               in if length clientSigners = 0
                  then Inl (InvalidSep10ChallengeError
                    ''No verifiable client signers provided, at least one G... address must be provided'')
                  else
                    (case gatherTxSigners sdk (Transaction (tx r))
                            (publicKey sdk serverKP # clientSigners) of
                       Inl e \<Rightarrow> Inl e
                     | Inr signersFound \<Rightarrow>
                         if publicKey sdk serverKP \<notin> set signersFound
                         then Inl (InvalidSep10ChallengeError
                           (''Transaction not signed by server: '' @ [CHR 0x27]
                             @ publicKey sdk serverKP @ [CHR 0x27]))
                         else if length signersFound = 1
                         then Inl (InvalidSep10ChallengeError
                           ''None of the given signers match the transaction signatures'')
                         else if length signersFound \<noteq> length (signatures (tx r))
                         then Inl (InvalidSep10ChallengeError
                           ''Transaction has unrecognized signatures'')
                         else Inr (remove1 (publicKey sdk serverKP) signersFound))))"

record account_record_signer =
  key :: string
  weight :: int

text \<open>
  \<open>signerSummary.find((s) => s.key === signer)?.weight || 0\<close>: the weight of the entry
  found, and 0 when there is none or when that weight is 0.
\<close>

definition sig_weight :: "account_record_signer list \<Rightarrow> string \<Rightarrow> int" where
  "sig_weight signerSummary signer =
     (case List.find (\<lambda>s. key s = signer) signerSummary of
        None \<Rightarrow> 0
      | Some s \<Rightarrow> if weight s = 0 then 0 else weight s)"

fun sum_weights :: "account_record_signer list \<Rightarrow> string list \<Rightarrow> int \<Rightarrow> int" where
  "sum_weights signerSummary [] w = w"
| "sum_weights signerSummary (signer # rest) w =
     sum_weights signerSummary rest (w + sig_weight signerSummary signer)"

definition verifyChallengeTxThreshold ::
  "('kp, 'w) base_sdk \<Rightarrow> 'w \<Rightarrow> string \<Rightarrow> string \<Rightarrow> int \<Rightarrow> account_record_signer list
    \<Rightarrow> home_domains \<Rightarrow> int \<Rightarrow> error + string list" where
  "verifyChallengeTxThreshold sdk challengeTx serverAccountID passphrase threshold signerSummary
      homeDomains now =
     (let signers = map key signerSummary
      in case verifyChallengeTxSigners sdk challengeTx serverAccountID passphrase signers
                homeDomains now of
           Inl e \<Rightarrow> Inl e
         | Inr signersFound \<Rightarrow>
             let w = sum_weights signerSummary signersFound 0
             in if w < threshold
                then Inl (InvalidSep10ChallengeError
                  (''signers with weight '' @ show_int w @ '' do not meet threshold ''
                    @ show_int threshold @ [CHR 0x22]))
                else Inr signersFound)"

subsection \<open>A small instance of the base SDK\<close>

text \<open>
  An instance on which the operations can be run: a keypair is its address, an address
  is valid when it starts with G, the hint of a key is the key, a signature is the key
  followed by the signed hash, and an envelope is encoded as itself.
\<close>

definition env_hash :: "envelope \<Rightarrow> string" where
  "env_hash e =
     (case e of
        Transaction t \<Rightarrow> networkPassphrase t @ source t
      | FeeBumpTransaction f \<Rightarrow> networkPassphrase (innerTransaction f) @ feeSource f)"

definition example_sdk :: "(string, envelope) base_sdk" where
  "example_sdk =
     \<lparr>publicKey = (\<lambda>k. k),
      fromPublicKey = (\<lambda>s. if startsWith s (CHR ''G'') then Inr s else Inl ''invalid encoded string''),
      signatureHint = (\<lambda>k. k),
      sign = (\<lambda>k h. k @ h),
      verify = (\<lambda>k h s. s = k @ h),
      hash = env_hash,
      toXDR = Inr,
      fromXDR = (\<lambda>w p. Inr w),
      BASE_FEE = ''100'',
      TimeoutInfinite = 0\<rparr>"

text \<open>
  An unsigned transaction without operations, built at clock 0 with a timeout of 30 for
  the account GS.
\<close>

definition example_unsigned :: transaction where
  "example_unsigned = build example_sdk ''GS'' (- 1) ''net'' 0 30 []"

text \<open>
  The challenge that buildChallengeTx makes at clock 1000 for the server GS, the client
  GC and the home domain SDF, with a timeout of 300; and the same transaction without
  its time bounds.
\<close>

definition example_tx :: transaction where
  "example_tx = sign_transaction example_sdk
     (build example_sdk ''GS'' (- 1) ''net'' 1000 1300 [manageData ''SDF auth'' ''nonce'' ''GC''])
     ''GS''"

definition example_challenge :: envelope where
  "example_challenge = Transaction example_tx"

definition example_no_timebounds :: envelope where
  "example_no_timebounds = Transaction (example_tx\<lparr>timeBounds := None\<rparr>)"



text \<open>
  The example challenge signed, after the server, by the clients GC and GD.
\<close>

definition example_signed_challenge :: envelope where
  "example_signed_challenge = Transaction (sign_transaction example_sdk
     (sign_transaction example_sdk example_tx ''GC'') ''GD'')"

text \<open>
  The example challenge signed, after the server, by the client GC alone.
\<close>

definition example_signed_by_client :: envelope where
  "example_signed_by_client = Transaction (sign_transaction example_sdk example_tx ''GC'')"

text \<open>
  The base SDK decodes an operation source that is a multiplexed address to the
  G-address of the key it contains. \<open>example_muxed_sdk\<close> is the small instance with
  such a decoder, for the one multiplexed address used here and the G-address of its
  key. \<open>example_muxed_challenge\<close> is an encoded challenge like the example one, whose
  first operation carries that multiplexed address as source.
\<close>

definition example_demux :: "string \<Rightarrow> string" where
  "example_demux s =
     (if s = ''MAAAAAAAAAAAAAB7BQ2L7E5NBWMXDUCMZSIPOBKRDSBYVLMXGSSKF6YNPIB7Y77ITLVL6''
      then ''GA7QYNF7SOWQ3GLR2BGMZEHXAVIRZA4KVWLTJJFC7MGXUA74P7UJVSGZ'' else s)"

definition example_decode :: "envelope \<Rightarrow> envelope" where
  "example_decode e =
     (case e of
        Transaction t \<Rightarrow> Transaction (t\<lparr>operations :=
          map (\<lambda>opn. opn\<lparr>op_source := map_option example_demux (op_source opn)\<rparr>) (operations t)\<rparr>)
      | FeeBumpTransaction f \<Rightarrow> FeeBumpTransaction f)"

definition example_muxed_sdk :: "(string, envelope) base_sdk" where
  "example_muxed_sdk = example_sdk\<lparr>fromXDR := (\<lambda>w p. Inr (example_decode w))\<rparr>"

definition example_muxed_challenge :: envelope where
  "example_muxed_challenge = Transaction (sign_transaction example_sdk
     (build example_sdk ''GS'' (- 1) ''net'' 1000 1300
        [manageData ''SDF auth'' ''nonce''
           ''MAAAAAAAAAAAAAB7BQ2L7E5NBWMXDUCMZSIPOBKRDSBYVLMXGSSKF6YNPIB7Y77ITLVL6''])
     ''GS'')"

text \<open>
  The challenge that buildChallengeTx makes for the empty home domain.
\<close>

definition example_empty_domain :: envelope where
  "example_empty_domain = Transaction (sign_transaction example_sdk
     (build example_sdk ''GS'' (- 1) ''net'' 1000 1300 [manageData '' auth'' ''nonce'' ''GC''])
     ''GS'')"

section \<open>Properties\<close>

subsection \<open>Decimal numbers: printing, then parsing\<close>

lemma of_char_digit: "(d::nat) < 10 \<Longrightarrow> (of_char (char_of (48 + d) :: char) :: nat) = 48 + d"
  by (simp add: of_char_of)

lemma is_digit_char_of: "(d::nat) < 10 \<Longrightarrow> is_digit (char_of (48 + d))"
  by (simp add: is_digit_def of_char_digit)

lemma digit_val_char_of: "(d::nat) < 10 \<Longrightarrow> digit_val (char_of (48 + d)) = d"
  by (simp add: digit_val_def of_char_digit)

lemma show_nat_digits: "c \<in> set (show_nat n) \<Longrightarrow> is_digit c"
proof (induction n arbitrary: c rule: show_nat.induct)
  case (1 n)
  show ?case
  proof (cases "n < 10")
    case True
    with "1.prems" show ?thesis
      by (simp add: show_nat.simps [of n] is_digit_char_of)
  next
    case False
    with "1.prems" "1.IH" show ?thesis
      by (auto simp: show_nat.simps [of n] is_digit_char_of)
  qed
qed

lemma show_nat_not_Nil: "show_nat n \<noteq> []"
  by (subst show_nat.simps) simp

lemma digits_value_show_nat: "digits_value (show_nat n) = n"
proof (induction n rule: show_nat.induct)
  case (1 n)
  show ?case
  proof (cases "n < 10")
    case True
    then show ?thesis
      by (simp add: show_nat.simps [of n] digits_value_def digit_val_char_of)
  next
    case False
    with "1.IH" have "digits_value (show_nat (n div 10)) = n div 10" by simp
    with False show ?thesis
      by (simp add: show_nat.simps [of n] digits_value_def digit_val_char_of)
  qed
qed

lemma is_digit_not_space: "is_digit c \<Longrightarrow> \<not> is_space c"
  by (auto simp: is_digit_def is_space_def)

lemma is_digit_not_sign: "is_digit c \<Longrightarrow> c \<noteq> CHR ''-'' \<and> c \<noteq> CHR ''+''"
  by (auto simp: is_digit_def)

lemma takeWhile_all_digits: "\<forall>x \<in> set ds. is_digit x \<Longrightarrow> takeWhile is_digit ds = ds"
  by (simp add: takeWhile_eq_all_conv)

lemma parseInt_digits:
  assumes "ds \<noteq> []" and "\<forall>x \<in> set ds. is_digit x"
  shows "parseInt ds = Some (int (digits_value ds))"
proof -
  obtain c cs where cs: "ds = c # cs"
    using assms(1) by (cases ds) auto
  have c: "is_digit c" using assms(2) cs by simp
  have dw: "dropWhile is_space ds = ds"
    using is_digit_not_space [OF c] by (simp add: cs)
  have sg: "\<not> startsWith ds (CHR ''-'')" "\<not> startsWith ds (CHR ''+'')"
    using is_digit_not_sign [OF c] by (simp_all add: cs)
  show ?thesis
    unfolding parseInt_def Let_def dw
    using sg assms(1) by (simp add: takeWhile_all_digits [OF assms(2)])
qed

lemma parseInt_minus_digits:
  assumes "ds \<noteq> []" and "\<forall>x \<in> set ds. is_digit x"
  shows "parseInt (CHR ''-'' # ds) = Some (- int (digits_value ds))"
proof -
  have dw: "dropWhile is_space (CHR ''-'' # ds) = CHR ''-'' # ds"
    by (simp add: is_space_def)
  show ?thesis
    unfolding parseInt_def Let_def dw
    using assms(1) by (simp add: takeWhile_all_digits [OF assms(2)])
qed

lemma parseInt_show_int: "parseInt (show_int i) = Some i"
proof -
  have d: "\<forall>x \<in> set (show_nat n). is_digit x" for n
    using show_nat_digits by blast
  show ?thesis
    by (simp add: show_int_def parseInt_digits [OF show_nat_not_Nil d]
        parseInt_minus_digits [OF show_nat_not_Nil d] digits_value_show_nat)
qed

subsection \<open>gatherTxSigners on an unsigned transaction\<close>


lemma gather_loop_empty_pool:
  "gather_loop sdk h signers [] found = Inr (found, [])"
  by (cases signers) simp_all

text \<open>
  C5. For a transaction with an empty signature list, gatherTxSigners returns the empty
  list for every candidate list (in particular every non-empty one), whatever the
  candidates are: it never throws.
\<close>

theorem gatherTxSigners_unsigned:
  "env_signatures transaction = [] \<Longrightarrow> gatherTxSigners sdk transaction signers = Inr []"
  by (simp add: gatherTxSigners_def gather_loop_empty_pool)

theorem gatherTxSigners_unsigned_witness:
  "env_signatures (Transaction example_unsigned) = [] \<and>
   gatherTxSigners example_sdk (Transaction example_unsigned) [''TAQC'', ''GA''] = Inr []"
  using gatherTxSigners_unsigned [of "Transaction example_unsigned" example_sdk "[''TAQC'', ''GA'']"]
  by (simp add: example_unsigned_def build_def)

subsection \<open>The loops of gatherTxSigners\<close>

lemma match_signature_length:
  "match_signature sdk kp h pool = Some pool' \<Longrightarrow> Suc (length pool') = length pool"
  by (induction pool arbitrary: pool') (auto split: if_splits)

lemma match_signature_keeps:
  "match_signature sdk kp h pool = Some pool' \<Longrightarrow> d \<in> set pool \<Longrightarrow>
   \<not> (hint d = signatureHint sdk kp \<and> verify sdk kp h (signature d)) \<Longrightarrow> d \<in> set pool'"
  by (induction pool arbitrary: pool') (auto split: if_splits)


lemma gather_loop_malformed:
  "pool \<noteq> [] \<Longrightarrow> fromPublicKey sdk bad = Inl msg \<Longrightarrow>
   gather_loop sdk h (bad # post) pool found
     = Inl (InvalidSep10ChallengeError (''Signer is not a valid address: '' @ msg))"
  by simp


text \<open>Candidates that are all distinct and not yet found: each one found has consumed one
  signature.\<close>

lemma gather_loop_count:
  "gather_loop sdk h signers pool found = Inr (found', pool') \<Longrightarrow>
   distinct signers \<Longrightarrow> set signers \<inter> set found = {} \<Longrightarrow>
   length found' + length pool' = length found + length pool"
proof (induction signers arbitrary: pool found)
  case Nil
  then show ?case by simp
next
  case (Cons s signers)
  show ?case
  proof (cases "pool = []")
    case True
    with Cons.prems show ?thesis by simp
  next
    case False
    with Cons.prems obtain kp where kp: "fromPublicKey sdk s = Inr kp"
      by (auto split: sum.splits)
    show ?thesis
    proof (cases "match_signature sdk kp h pool")
      case None
      with Cons.prems False kp have "gather_loop sdk h signers pool found = Inr (found', pool')"
        by simp
      from Cons.IH [OF this] Cons.prems show ?thesis by simp
    next
      case (Some p)
      from Cons.prems have nf: "s \<notin> set found" by simp
      from Some Cons.prems False kp
      have "gather_loop sdk h signers p (found @ [s]) = Inr (found', pool')"
        by (simp add: set_add_def nf)
      from Cons.IH [OF this] Cons.prems match_signature_length [OF Some]
      show ?thesis by auto
    qed
  qed
qed

lemma gather_loop_unmatched:
  "gather_loop sdk h signers pool found = Inr (found', pool') \<Longrightarrow> d \<in> set pool \<Longrightarrow>
   (\<forall>s \<in> set signers. \<forall>kp. fromPublicKey sdk s = Inr kp \<longrightarrow>
      \<not> (hint d = signatureHint sdk kp \<and> verify sdk kp h (signature d))) \<Longrightarrow>
   d \<in> set pool'"
proof (induction signers arbitrary: pool found)
  case Nil
  then show ?case by simp
next
  case (Cons s signers)
  from Cons.prems(2) have ne: "pool \<noteq> []" by auto
  with Cons.prems obtain kp where kp: "fromPublicKey sdk s = Inr kp"
    by (auto split: sum.splits)
  have rest: "\<forall>s \<in> set signers. \<forall>kp. fromPublicKey sdk s = Inr kp \<longrightarrow>
      \<not> (hint d = signatureHint sdk kp \<and> verify sdk kp h (signature d))"
    using Cons.prems(3) by simp
  have nm: "\<not> (hint d = signatureHint sdk kp \<and> verify sdk kp h (signature d))"
    using Cons.prems(3) kp by simp
  show ?case
  proof (cases "match_signature sdk kp h pool")
    case None
    with Cons.prems ne kp have "gather_loop sdk h signers pool found = Inr (found', pool')"
      by simp
    from Cons.IH [OF this Cons.prems(2) rest] show ?thesis .
  next
    case (Some p)
    with Cons.prems ne kp
    have g: "gather_loop sdk h signers p (set_add found s) = Inr (found', pool')"
      by simp
    from Cons.IH [OF g match_signature_keeps [OF Some Cons.prems(2) nm] rest]
    show ?thesis .
  qed
qed

lemma gatherTxSigners_Inr:
  "gatherTxSigners sdk e signers = Inr found \<longleftrightarrow>
     (\<exists>pool. gather_loop sdk (hash sdk e) signers (env_signatures e) [] = Inr (found, pool))"
  by (auto simp: gatherTxSigners_def split: sum.splits)


lemma gather_loop_found_length:
  "gather_loop sdk h signers pool found = Inr (found', pool') \<Longrightarrow>
   length found' \<le> length found + length signers"
proof (induction signers arbitrary: pool found)
  case Nil
  then show ?case by simp
next
  case (Cons s signers)
  show ?case
  proof (cases "pool = []")
    case True
    with Cons.prems show ?thesis by simp
  next
    case False
    with Cons.prems obtain kp where kp: "fromPublicKey sdk s = Inr kp"
      by (auto split: sum.splits)
    have sa: "length (set_add found s) \<le> Suc (length found)"
      by (simp add: set_add_def)
    show ?thesis
    proof (cases "match_signature sdk kp h pool")
      case None
      with Cons.prems False kp have "gather_loop sdk h signers pool found = Inr (found', pool')"
        by simp
      from Cons.IH [OF this] show ?thesis by simp
    next
      case (Some p)
      with Cons.prems False kp
      have "gather_loop sdk h signers p (set_add found s) = Inr (found', pool')"
        by simp
      from Cons.IH [OF this] sa show ?thesis by simp
    qed
  qed
qed

subsection \<open>Malformed candidates\<close>





subsection \<open>readChallengeTx: the checks up to the time bounds\<close>

lemma validateTimebounds_iff:
  "validateTimebounds t now \<longleftrightarrow>
     (\<exists>tb lo hi. timeBounds t = Some tb \<and> parseInt (minTime tb) = Some lo \<and>
        parseInt (maxTime tb) = Some hi \<and> lo \<le> now \<and> now \<le> hi)"
  by (auto simp: validateTimebounds_def split: option.splits)

lemma check_subsequent_not_expired: "check_subsequent server ops \<noteq> Some expired"
  by (induction ops) (simp_all add: expired_def)

text \<open>readChallengeTx once the checks on the envelope, the sequence number, the source
  and the first operation have passed.\<close>

lemma readChallengeTx_structure_ok:
  assumes "\<not> startsWith server (CHR ''M'')"
    and "fromXDR sdk w pp = Inr (Transaction t)"
    and "parseInt (sequence t) = Some 0"
    and "source t = server"
    and "operations t = opn # rest"
    and "op_source opn = Some c" and "c \<noteq> []"
    and "op_type opn = ''manageData''"
    and "\<forall>tb. timeBounds t = Some tb \<longrightarrow> parseInt (maxTime tb) \<noteq> Some (TimeoutInfinite sdk)"
  shows "readChallengeTx sdk w server pp hds now =
    (if \<not> validateTimebounds t now then Inl expired
     else if hds = HDFalsy \<or> hds = HDString []
     then Inl (InvalidSep10ChallengeError
       ''Invalid homeDomains: a home domain must be provided for verification'')
     else (case hds of
        HDOther ty \<Rightarrow> Inl (InvalidSep10ChallengeError
          (''Invalid homeDomains: homeDomains type is '' @ ty
             @ '' but should be a string or an array''))
      | _ \<Rightarrow>
       (case match_home_domain hds (op_name opn) of
          None \<Rightarrow> Inl domain_mismatch
        | Some matched \<Rightarrow>
           (if matched = [] then Inl domain_mismatch
            else (case check_subsequent server rest of
                    Some e \<Rightarrow> Inl e
                  | None \<Rightarrow> Inr \<lparr>tx = t, clientAccountID = c,
                      matchedHomeDomain = matched\<rparr>)))))"
proof -
  have inf: "(case timeBounds t of None \<Rightarrow> False
      | Some tb \<Rightarrow> parseInt (maxTime tb) = Some (TimeoutInfinite sdk)) = False"
    using assms(9) by (simp split: option.splits)
  show ?thesis
    unfolding readChallengeTx_def
    by (simp only: assms(1-8) inf if_False if_True sum.case envelope.case list.case
        option.case not_False_eq_True simp_thms)
qed

lemma readChallengeTx_expired_iff:
  assumes "\<not> startsWith server (CHR ''M'')"
    and "fromXDR sdk w pp = Inr (Transaction t)"
    and "parseInt (sequence t) = Some 0"
    and "source t = server"
    and "operations t = opn # rest"
    and "op_source opn = Some c" and "c \<noteq> []"
    and "op_type opn = ''manageData''"
    and "\<forall>tb. timeBounds t = Some tb \<longrightarrow> parseInt (maxTime tb) \<noteq> Some (TimeoutInfinite sdk)"
  shows "readChallengeTx sdk w server pp hds now = Inl expired \<longleftrightarrow> \<not> validateTimebounds t now"
proof (cases "validateTimebounds t now")
  case False
  then show ?thesis
    by (simp add: readChallengeTx_structure_ok [OF assms])
next
  case True
  have ne: "check_subsequent server rest \<noteq> Some expired"
    by (rule check_subsequent_not_expired)
  have "readChallengeTx sdk w server pp hds now \<noteq> Inl expired"
    unfolding readChallengeTx_structure_ok [OF assms]
    using True ne
    by (cases hds) (auto simp: expired_def domain_mismatch_def split: option.splits)
  with True show ?thesis by simp
qed


lemma signed_build_fields:
  "sequence (sign_transaction sdk (build sdk a (- 1) pp lo hi ops) k) = show_int 0"
  "source (sign_transaction sdk (build sdk a (- 1) pp lo hi ops) k) = a"
  "operations (sign_transaction sdk (build sdk a (- 1) pp lo hi ops) k) = ops"
  "timeBounds (sign_transaction sdk (build sdk a (- 1) pp lo hi ops) k)
     = Some \<lparr>minTime = show_int lo, maxTime = show_int hi\<rparr>"
  by (simp_all add: sign_transaction_def build_def)

lemma example_tx_fields:
  "parseInt (sequence example_tx) = Some 0"
  "source example_tx = ''GS''"
  "operations example_tx = [manageData ''SDF auth'' ''nonce'' ''GC'']"
  "timeBounds example_tx = Some \<lparr>minTime = show_int 1000, maxTime = show_int 1300\<rparr>"
  unfolding example_tx_def by (simp_all only: signed_build_fields parseInt_show_int)

subsection \<open>Expiry\<close>

text \<open>
  C8. For a challenge that passes the checks made before the time bounds are looked at
  (it decodes to a plain transaction with sequence number 0 and the server as source,
  its first operation is a manageData operation with a source, and its maximum time is
  not the infinite one), readChallengeTx throws "The transaction has expired" exactly
  when the time bounds are missing or the clock is not within [minTime, maxTime]; a
  missing time-bounds object gives this same error. With time bounds present, a
  challenge that reads successfully at some instant reads successfully, with the same
  result, at the instant maxTime, and fails with the expiry error at maxTime + 1.
\<close>

theorem readChallengeTx_expiry:
  assumes "\<not> startsWith server (CHR ''M'')"
    and "fromXDR sdk w pp = Inr (Transaction t)"
    and "parseInt (sequence t) = Some 0"
    and "source t = server"
    and "operations t = opn # rest"
    and "op_source opn = Some c" and "c \<noteq> []"
    and "op_type opn = ''manageData''"
    and "\<forall>tb. timeBounds t = Some tb \<longrightarrow> parseInt (maxTime tb) \<noteq> Some (TimeoutInfinite sdk)"
  shows "(readChallengeTx sdk w server pp hds now
            = Inl (InvalidSep10ChallengeError ''The transaction has expired'')
          \<longleftrightarrow> (timeBounds t = None \<or>
               \<not> (\<exists>tb lo hi. timeBounds t = Some tb \<and> parseInt (minTime tb) = Some lo \<and>
                     parseInt (maxTime tb) = Some hi \<and> lo \<le> now \<and> now \<le> hi)))
       \<and> (\<forall>tb hi now0 r. timeBounds t = Some tb \<and> parseInt (maxTime tb) = Some hi \<and>
              readChallengeTx sdk w server pp hds now0 = Inr r
            \<longrightarrow> readChallengeTx sdk w server pp hds hi = Inr r \<and>
                readChallengeTx sdk w server pp hds (hi + 1)
                  = Inl (InvalidSep10ChallengeError ''The transaction has expired''))"
proof (intro conjI allI impI)
  show "readChallengeTx sdk w server pp hds now
            = Inl (InvalidSep10ChallengeError ''The transaction has expired'')
          \<longleftrightarrow> (timeBounds t = None \<or>
               \<not> (\<exists>tb lo hi. timeBounds t = Some tb \<and> parseInt (minTime tb) = Some lo \<and>
                     parseInt (maxTime tb) = Some hi \<and> lo \<le> now \<and> now \<le> hi))"
    using readChallengeTx_expired_iff [OF assms, of hds now]
    by (auto simp: validateTimebounds_iff expired_def)
next
  fix tb hi now0 r
  assume a: "timeBounds t = Some tb \<and> parseInt (maxTime tb) = Some hi \<and>
              readChallengeTx sdk w server pp hds now0 = Inr r"
  have v0: "validateTimebounds t now0"
    using a readChallengeTx_expired_iff [OF assms, of hds now0]
      readChallengeTx_structure_ok [OF assms, of hds now0] by auto
  then obtain lo where lo: "parseInt (minTime tb) = Some lo" "lo \<le> now0" "now0 \<le> hi"
    using a by (auto simp: validateTimebounds_iff)
  have vhi: "validateTimebounds t hi"
    using a lo by (auto simp: validateTimebounds_iff)
  have nhi: "\<not> validateTimebounds t (hi + 1)"
    using a by (auto simp: validateTimebounds_iff)
  have "readChallengeTx sdk w server pp hds hi = readChallengeTx sdk w server pp hds now0"
    by (simp add: readChallengeTx_structure_ok [OF assms] v0 vhi)
  then show "readChallengeTx sdk w server pp hds hi = Inr r"
    using a by simp
  show "readChallengeTx sdk w server pp hds (hi + 1)
          = Inl (InvalidSep10ChallengeError ''The transaction has expired'')"
    using readChallengeTx_expired_iff [OF assms, of hds "hi + 1"] nhi
    by (simp add: expired_def)
qed

theorem readChallengeTx_expiry_witness:
  "readChallengeTx example_sdk example_challenge ''GS'' ''net'' (HDString ''SDF'') 1300
     = Inr \<lparr>tx = example_tx, clientAccountID = ''GC'', matchedHomeDomain = ''SDF''\<rparr> \<and>
   readChallengeTx example_sdk example_challenge ''GS'' ''net'' (HDString ''SDF'') 1301
     = Inl (InvalidSep10ChallengeError ''The transaction has expired'') \<and>
   readChallengeTx example_sdk example_no_timebounds ''GS'' ''net'' (HDString ''SDF'') 1000
     = Inl (InvalidSep10ChallengeError ''The transaction has expired'')"
proof -
  let ?r = "\<lparr>tx = example_tx, clientAccountID = ''GC'', matchedHomeDomain = ''SDF''\<rparr>"
  let ?u = "example_tx\<lparr>timeBounds := None\<rparr>"
  have h1: "\<not> startsWith ''GS'' (CHR ''M'')" by simp
  have h2: "fromXDR example_sdk example_challenge ''net'' = Inr (Transaction example_tx)"
    by (simp add: example_sdk_def example_challenge_def)
  note h3 = example_tx_fields(1) and h4 = example_tx_fields(2) and h5 = example_tx_fields(3)
  have h6: "op_source (manageData ''SDF auth'' ''nonce'' ''GC'') = Some ''GC''"
    by (simp add: manageData_def)
  have h7: "''GC'' \<noteq> []" by simp
  have h8: "op_type (manageData ''SDF auth'' ''nonce'' ''GC'') = ''manageData''"
    by (simp add: manageData_def)
  have h9: "\<forall>tb. timeBounds example_tx = Some tb
      \<longrightarrow> parseInt (maxTime tb) \<noteq> Some (TimeoutInfinite example_sdk)"
    by (simp add: example_tx_fields parseInt_show_int example_sdk_def)
  have r: "readChallengeTx example_sdk example_challenge ''GS'' ''net'' (HDString ''SDF'') 1000 = Inr ?r"
    by (simp add: readChallengeTx_structure_ok [OF h1 h2 h3 h4 h5 h6 h7 h8 h9]
        validateTimebounds_iff example_tx_fields parseInt_show_int manageData_def)
  have tb: "timeBounds example_tx = Some \<lparr>minTime = show_int 1000, maxTime = show_int 1300\<rparr> \<and>
    parseInt (maxTime \<lparr>minTime = show_int 1000, maxTime = show_int 1300\<rparr>) = Some 1300 \<and>
    readChallengeTx example_sdk example_challenge ''GS'' ''net'' (HDString ''SDF'') 1000 = Inr ?r"
    using r by (simp add: example_tx_fields parseInt_show_int)
  from readChallengeTx_expiry [OF h1 h2 h3 h4 h5 h6 h7 h8 h9, of "HDString ''SDF''" 0]
  have a: "readChallengeTx example_sdk example_challenge ''GS'' ''net'' (HDString ''SDF'') 1300 = Inr ?r \<and>
        readChallengeTx example_sdk example_challenge ''GS'' ''net'' (HDString ''SDF'') (1300 + 1)
          = Inl (InvalidSep10ChallengeError ''The transaction has expired'')"
    using tb by blast
  have g2: "fromXDR example_sdk example_no_timebounds ''net'' = Inr (Transaction ?u)"
    by (simp add: example_sdk_def example_no_timebounds_def)
  have g3: "parseInt (sequence ?u) = Some 0" using h3 by simp
  have g4: "source ?u = ''GS''" using h4 by simp
  have g5: "operations ?u = [manageData ''SDF auth'' ''nonce'' ''GC'']" using h5 by simp
  have g9: "\<forall>tb. timeBounds ?u = Some tb
      \<longrightarrow> parseInt (maxTime tb) \<noteq> Some (TimeoutInfinite example_sdk)"
    by simp
  from readChallengeTx_expiry [OF h1 g2 g3 g4 g5 h6 h7 h8 g9, of "HDString ''SDF''" 1000]
  have b: "readChallengeTx example_sdk example_no_timebounds ''GS'' ''net'' (HDString ''SDF'') 1000
     = Inl (InvalidSep10ChallengeError ''The transaction has expired'')"
    by simp
  from a b show ?thesis by simp
qed

subsection \<open>The example challenge on the small instance\<close>

lemma sign_transaction_fields:
  "sequence (sign_transaction sdk t k) = sequence t"
  "source (sign_transaction sdk t k) = source t"
  "operations (sign_transaction sdk t k) = operations t"
  "timeBounds (sign_transaction sdk t k) = timeBounds t"
  "networkPassphrase (sign_transaction sdk t k) = networkPassphrase t"
  by (simp_all add: sign_transaction_def)

text \<open>Reading, on the small instance, a transaction that differs from the example
  challenge in its signatures only.\<close>

lemma read_example:
  assumes "parseInt (sequence t) = Some 0" and "source t = ''GS''"
    and "operations t = [manageData ''SDF auth'' val c]" and "c \<noteq> []"
    and "timeBounds t = Some \<lparr>minTime = show_int 1000, maxTime = show_int 1300\<rparr>"
    and "1000 \<le> now" and "now \<le> 1300"
  shows "readChallengeTx example_sdk (Transaction t) ''GS'' pp (HDString ''SDF'') now
    = Inr \<lparr>tx = t, clientAccountID = c, matchedHomeDomain = ''SDF''\<rparr>"
proof -
  have h1: "\<not> startsWith ''GS'' (CHR ''M'')" by simp
  have h2: "fromXDR example_sdk (Transaction t) pp = Inr (Transaction t)"
    by (simp add: example_sdk_def)
  have h6: "op_source (manageData ''SDF auth'' val c) = Some c"
    by (simp add: manageData_def)
  have h8: "op_type (manageData ''SDF auth'' val c) = ''manageData''"
    by (simp add: manageData_def)
  have h9: "\<forall>tb. timeBounds t = Some tb
      \<longrightarrow> parseInt (maxTime tb) \<noteq> Some (TimeoutInfinite example_sdk)"
    by (simp add: assms(5) parseInt_show_int example_sdk_def)
  show ?thesis
    using assms(6,7)
    by (simp add: readChallengeTx_structure_ok [OF h1 h2 assms(1) assms(2) assms(3) h6 assms(4) h8 h9]
        validateTimebounds_iff assms(5) parseInt_show_int manageData_def)
qed

lemma example_signed_challenge_read:
  "readChallengeTx example_sdk example_signed_challenge ''GS'' ''net'' (HDString ''SDF'') 1200
    = Inr \<lparr>tx = sign_transaction example_sdk (sign_transaction example_sdk example_tx ''GC'') ''GD'',
           clientAccountID = ''GC'', matchedHomeDomain = ''SDF''\<rparr>"
  unfolding example_signed_challenge_def
  by (rule read_example) (simp_all add: sign_transaction_fields example_tx_fields)

lemma example_signed_challenge_signatures:
  "signatures (sign_transaction example_sdk (sign_transaction example_sdk example_tx ''GC'') ''GD'')
     = [\<lparr>hint = ''GS'', signature = ''GSnetGS''\<rparr>, \<lparr>hint = ''GC'', signature = ''GCnetGS''\<rparr>,
        \<lparr>hint = ''GD'', signature = ''GDnetGS''\<rparr>]"
  "hash example_sdk (Transaction
     (sign_transaction example_sdk (sign_transaction example_sdk example_tx ''GC'') ''GD'')) = ''netGS''"
  by (simp_all add: example_tx_def sign_transaction_def build_def example_sdk_def env_hash_def)

lemma example_gather:
  "gatherTxSigners example_sdk (Transaction
     (sign_transaction example_sdk (sign_transaction example_sdk example_tx ''GC'') ''GD''))
     [''GS'', ''GC''] = Inr [''GS'', ''GC'']"
  "gatherTxSigners example_sdk (Transaction
     (sign_transaction example_sdk (sign_transaction example_sdk example_tx ''GC'') ''GD''))
     [''GS'', ''GC'', ''GD''] = Inr [''GS'', ''GC'', ''GD'']"
  unfolding gatherTxSigners_def env_signatures.simps example_signed_challenge_signatures
  by (simp_all add: example_sdk_def set_add_def)

subsection \<open>verifyChallengeTxSigners: the client signers and the signatures\<close>


lemma collect_client_signers_set:
  "set (collect_client_signers pk signers acc)
     = set acc \<union> {s \<in> set signers. s \<noteq> pk \<and> startsWith s (CHR ''G'')}"
  by (induction signers arbitrary: acc) (auto simp: set_add_def)

lemma collect_client_signers_distinct:
  "distinct acc \<Longrightarrow> distinct (collect_client_signers pk signers acc)"
  by (induction signers arbitrary: acc) (auto simp: set_add_def)


lemma verifyChallengeTxSigners_Inr:
  assumes "verifyChallengeTxSigners sdk w server pp signers hds now = Inr result"
  shows "\<exists>r kp found.
      readChallengeTx sdk w server pp hds now = Inr r \<and>
      fromPublicKey sdk server = Inr kp \<and>
      gatherTxSigners sdk (Transaction (tx r))
        (publicKey sdk kp # collect_client_signers (publicKey sdk kp) signers []) = Inr found \<and>
      publicKey sdk kp \<in> set found \<and>
      length found = length (signatures (tx r)) \<and>
      result = remove1 (publicKey sdk kp) found"
proof -
  from assms obtain r where r: "readChallengeTx sdk w server pp hds now = Inr r"
    unfolding verifyChallengeTxSigners_def by (cases "readChallengeTx sdk w server pp hds now") simp_all
  from assms r obtain kp where kp: "fromPublicKey sdk server = Inr kp"
    unfolding verifyChallengeTxSigners_def by (cases "fromPublicKey sdk server") simp_all
  let ?pk = "publicKey sdk kp"
  let ?cs = "collect_client_signers ?pk signers []"
  from assms r kp have ne: "?cs \<noteq> []"
    unfolding verifyChallengeTxSigners_def Let_def by (cases "?cs = []") simp_all
  from assms r kp ne obtain found where
    g: "gatherTxSigners sdk (Transaction (tx r)) (?pk # ?cs) = Inr found"
    unfolding verifyChallengeTxSigners_def Let_def
    by (cases "gatherTxSigners sdk (Transaction (tx r)) (?pk # ?cs)") simp_all
  from assms r kp ne g have
    "?pk \<in> set found \<and> length found = length (signatures (tx r)) \<and> result = remove1 ?pk found"
    unfolding verifyChallengeTxSigners_def Let_def
    by (simp split: if_splits)
  with r kp g show ?thesis by blast
qed

lemma all_signers_unmatched:
  assumes g: "gatherTxSigners sdk (Transaction t)
        (pk # collect_client_signers pk signers []) = Inr found"
    and d: "d \<in> set (signatures t)"
    and un: "\<forall>s \<in> set (pk # signers). \<forall>k. fromPublicKey sdk s = Inr k \<longrightarrow>
        \<not> (hint d = signatureHint sdk k \<and>
           verify sdk k (hash sdk (Transaction t)) (signature d))"
  shows "length found < length (signatures t)"
proof -
  let ?all = "pk # collect_client_signers pk signers []"
  from g obtain pool where
    gl: "gather_loop sdk (hash sdk (Transaction t)) ?all (signatures t) [] = Inr (found, pool)"
    by (auto simp: gatherTxSigners_Inr)
  have sub: "set ?all \<subseteq> set (pk # signers)"
    by (auto simp: collect_client_signers_set)
  have "d \<in> set pool"
    using gather_loop_unmatched [OF gl d] un sub by blast
  then have "pool \<noteq> []" by auto
  moreover have "distinct ?all"
    by (simp add: collect_client_signers_distinct collect_client_signers_set)
  then have "length found + length pool = length (signatures t)"
    using gather_loop_count [OF gl] by simp
  ultimately show ?thesis by (cases pool) auto
qed

text \<open>
  C2. verifyChallengeTxSigners succeeds only if the number of signers found (the server
  and the matched clients) is the number of signatures of the transaction; what it
  returns is the signers found without the server, one fewer than the signatures.
  If the challenge carries a signature that neither the server's key nor any provided
  candidate verifies, verifyChallengeTxSigners does not succeed, and once the server
  and at least one candidate have been matched (whether or not every listed candidate
  has matched) the error is InvalidSep10ChallengeError
  "Transaction has unrecognized signatures".
\<close>

theorem verifyChallengeTxSigners_unrecognized:
  "(verifyChallengeTxSigners sdk w server pp signers hds now = Inr result
     \<longrightarrow> (\<exists>r kp found.
           readChallengeTx sdk w server pp hds now = Inr r \<and>
           fromPublicKey sdk server = Inr kp \<and>
           gatherTxSigners sdk (Transaction (tx r))
             (publicKey sdk kp # collect_client_signers (publicKey sdk kp) signers []) = Inr found \<and>
           length found = length (signatures (tx r)) \<and>
           result = remove1 (publicKey sdk kp) found \<and>
           Suc (length result) = length (signatures (tx r))))
   \<and> (\<forall>r kp d.
         readChallengeTx sdk w server pp hds now = Inr r \<and>
         fromPublicKey sdk server = Inr kp \<and>
         d \<in> set (signatures (tx r)) \<and>
         (\<forall>s \<in> set (publicKey sdk kp # signers). \<forall>k. fromPublicKey sdk s = Inr k \<longrightarrow>
            \<not> (hint d = signatureHint sdk k \<and>
               verify sdk k (hash sdk (Transaction (tx r))) (signature d)))
       \<longrightarrow> (\<forall>res. verifyChallengeTxSigners sdk w server pp signers hds now \<noteq> Inr res) \<and>
           (\<forall>found.
              gatherTxSigners sdk (Transaction (tx r))
                (publicKey sdk kp # collect_client_signers (publicKey sdk kp) signers []) = Inr found \<and>
              publicKey sdk kp \<in> set found \<and> length found \<noteq> 1
            \<longrightarrow> verifyChallengeTxSigners sdk w server pp signers hds now
                  = Inl (InvalidSep10ChallengeError ''Transaction has unrecognized signatures'')))"
proof (intro conjI allI impI)
  assume a: "verifyChallengeTxSigners sdk w server pp signers hds now = Inr result"
  from verifyChallengeTxSigners_Inr [OF a] obtain r kp found where
    f: "readChallengeTx sdk w server pp hds now = Inr r"
       "fromPublicKey sdk server = Inr kp"
       "gatherTxSigners sdk (Transaction (tx r))
         (publicKey sdk kp # collect_client_signers (publicKey sdk kp) signers []) = Inr found"
       "publicKey sdk kp \<in> set found"
       "length found = length (signatures (tx r))"
       "result = remove1 (publicKey sdk kp) found"
    by blast
  from f(4,6) have "Suc (length result) = length found"
    by (simp add: length_remove1) (cases found; simp)
  with f show "\<exists>r kp found.
           readChallengeTx sdk w server pp hds now = Inr r \<and>
           fromPublicKey sdk server = Inr kp \<and>
           gatherTxSigners sdk (Transaction (tx r))
             (publicKey sdk kp # collect_client_signers (publicKey sdk kp) signers []) = Inr found \<and>
           length found = length (signatures (tx r)) \<and>
           result = remove1 (publicKey sdk kp) found \<and>
           Suc (length result) = length (signatures (tx r))"
    by auto
next
  fix r kp d res
  assume a: "readChallengeTx sdk w server pp hds now = Inr r \<and>
         fromPublicKey sdk server = Inr kp \<and>
         d \<in> set (signatures (tx r)) \<and>
         (\<forall>s \<in> set (publicKey sdk kp # signers). \<forall>k. fromPublicKey sdk s = Inr k \<longrightarrow>
            \<not> (hint d = signatureHint sdk k \<and>
               verify sdk k (hash sdk (Transaction (tx r))) (signature d)))"
  show "verifyChallengeTxSigners sdk w server pp signers hds now \<noteq> Inr res"
  proof
    assume s: "verifyChallengeTxSigners sdk w server pp signers hds now = Inr res"
    from verifyChallengeTxSigners_Inr [OF s] a obtain found where
      "gatherTxSigners sdk (Transaction (tx r))
         (publicKey sdk kp # collect_client_signers (publicKey sdk kp) signers []) = Inr found"
      "length found = length (signatures (tx r))"
      by auto
    with all_signers_unmatched [of sdk "tx r" "publicKey sdk kp" signers found d] a
    show False by auto
  qed
next
  fix r kp d found
  assume a: "readChallengeTx sdk w server pp hds now = Inr r \<and>
         fromPublicKey sdk server = Inr kp \<and>
         d \<in> set (signatures (tx r)) \<and>
         (\<forall>s \<in> set (publicKey sdk kp # signers). \<forall>k. fromPublicKey sdk s = Inr k \<longrightarrow>
            \<not> (hint d = signatureHint sdk k \<and>
               verify sdk k (hash sdk (Transaction (tx r))) (signature d)))"
    and b: "gatherTxSigners sdk (Transaction (tx r))
                (publicKey sdk kp # collect_client_signers (publicKey sdk kp) signers []) = Inr found \<and>
              publicKey sdk kp \<in> set found \<and> length found \<noteq> 1"
  let ?pk = "publicKey sdk kp"
  let ?cs = "collect_client_signers ?pk signers []"
  from b obtain pool where
    gl: "gather_loop sdk (hash sdk (Transaction (tx r))) (?pk # ?cs) (signatures (tx r)) []
          = Inr (found, pool)"
    by (auto simp: gatherTxSigners_Inr)
  have ne: "?cs \<noteq> []"
  proof
    assume "?cs = []"
    with gather_loop_found_length [OF gl] have "length found \<le> 1" by simp
    with b show False by (cases found) auto
  qed
  have lt: "length found < length (signatures (tx r))"
    using all_signers_unmatched [of sdk "tx r" ?pk signers found d] a b by auto
  show "verifyChallengeTxSigners sdk w server pp signers hds now
          = Inl (InvalidSep10ChallengeError ''Transaction has unrecognized signatures'')"
    using a b ne lt by (simp add: verifyChallengeTxSigners_def)
qed


theorem verifyChallengeTxSigners_unrecognized_witness:
  "verifyChallengeTxSigners example_sdk example_signed_challenge ''GS'' ''net'' [''GC'', ''GD'']
      (HDString ''SDF'') 1200 = Inr [''GC'', ''GD''] \<and>
   verifyChallengeTxSigners example_sdk example_signed_challenge ''GS'' ''net'' [''GC'']
      (HDString ''SDF'') 1200
     = Inl (InvalidSep10ChallengeError ''Transaction has unrecognized signatures'')"
proof -
  let ?t = "sign_transaction example_sdk (sign_transaction example_sdk example_tx ''GC'') ''GD''"
  let ?r = "\<lparr>tx = ?t, clientAccountID = ''GC'', matchedHomeDomain = ''SDF''\<rparr>"
  let ?d = "\<lparr>hint = ''GD'', signature = ''GDnetGS''\<rparr>"
  have kp: "fromPublicKey example_sdk ''GS'' = Inr ''GS''" "publicKey example_sdk ''GS'' = ''GS''"
    by (simp_all add: example_sdk_def)
  have ok: "verifyChallengeTxSigners example_sdk example_signed_challenge ''GS'' ''net''
      [''GC'', ''GD''] (HDString ''SDF'') 1200 = Inr [''GC'', ''GD'']"
    by (simp add: verifyChallengeTxSigners_def example_signed_challenge_read kp set_add_def
        example_gather example_signed_challenge_signatures)
  have hyp: "readChallengeTx example_sdk example_signed_challenge ''GS'' ''net'' (HDString ''SDF'') 1200
        = Inr ?r \<and>
      fromPublicKey example_sdk ''GS'' = Inr ''GS'' \<and>
      ?d \<in> set (signatures (tx ?r)) \<and>
      (\<forall>s \<in> set (publicKey example_sdk ''GS'' # [''GC'']). \<forall>k. fromPublicKey example_sdk s = Inr k \<longrightarrow>
         \<not> (hint ?d = signatureHint example_sdk k \<and>
            verify example_sdk k (hash example_sdk (Transaction (tx ?r))) (signature ?d)))"
    by (simp add: example_signed_challenge_read example_signed_challenge_signatures)
       (simp add: example_sdk_def)
  have found: "gatherTxSigners example_sdk (Transaction (tx ?r))
      (publicKey example_sdk ''GS'' #
        collect_client_signers (publicKey example_sdk ''GS'') [''GC''] []) = Inr [''GS'', ''GC''] \<and>
      publicKey example_sdk ''GS'' \<in> set [''GS'', ''GC''] \<and> length [''GS'', ''GC''] \<noteq> 1"
    by (simp add: kp set_add_def example_gather)
  from verifyChallengeTxSigners_unrecognized
    [of example_sdk example_signed_challenge "''GS''" "''net''" "[''GC'']" "HDString ''SDF''" 1200 "[]"]
    hyp found
  have "verifyChallengeTxSigners example_sdk example_signed_challenge ''GS'' ''net'' [''GC'']
      (HDString ''SDF'') 1200
     = Inl (InvalidSep10ChallengeError ''Transaction has unrecognized signatures'')"
    by blast
  with ok show ?thesis by simp
qed

subsection \<open>Candidates that verifyChallengeTxSigners passes over\<close>




subsection \<open>verifyChallengeTxThreshold\<close>

lemma sum_weights_sum_list:
  "sum_weights summary found w = w + sum_list (map (sig_weight summary) found)"
  by (induction found arbitrary: w) simp_all

lemma sig_weight_missing: "a \<notin> key ` set summary \<Longrightarrow> sig_weight summary a = 0"
proof -
  assume "a \<notin> key ` set summary"
  then have "List.find (\<lambda>s. key s = a) summary = None"
    by (auto simp: find_None_iff)
  then show ?thesis by (simp add: sig_weight_def)
qed

lemma sig_weight_first:
  "\<forall>x \<in> set pre. key x \<noteq> key e \<Longrightarrow> sig_weight (pre @ e # post) (key e) = weight e"
proof (induction pre)
  case Nil
  show ?case by (simp add: sig_weight_def)
next
  case (Cons x pre)
  then show ?case by (simp add: sig_weight_def)
qed

lemma verifyChallengeTxThreshold_found:
  assumes "verifyChallengeTxSigners sdk w server pp (map key summary) hds now = Inr found"
  shows "verifyChallengeTxThreshold sdk w server pp threshold summary hds now =
     (if sum_list (map (sig_weight summary) found) < threshold
      then Inl (InvalidSep10ChallengeError
        (''signers with weight '' @ show_int (sum_list (map (sig_weight summary) found))
          @ '' do not meet threshold '' @ show_int threshold @ [CHR 0x22]))
      else Inr found)"
  unfolding verifyChallengeTxThreshold_def Let_def assms
  by (simp add: sum_weights_sum_list)

lemma show_int_small: "show_int 1 = ''1''" "show_int 2 = ''2''" "show_int 3 = ''3''" "show_int 4 = ''4''"
  by code_simp+

lemma example_signed_challenge_verify:
  "verifyChallengeTxSigners example_sdk example_signed_challenge ''GS'' ''net''
      [''GC'', ''GD''] (HDString ''SDF'') 1200 = Inr [''GC'', ''GD'']"
proof -
  have kp: "fromPublicKey example_sdk ''GS'' = Inr ''GS''" "publicKey example_sdk ''GS'' = ''GS''"
    by (simp_all add: example_sdk_def)
  show ?thesis
    by (simp add: verifyChallengeTxSigners_def example_signed_challenge_read kp set_add_def
        example_gather example_signed_challenge_signatures)
qed

lemma example_signed_by_client_verify:
  "verifyChallengeTxSigners example_sdk example_signed_by_client ''GS'' ''net''
      [''GC'', ''GC''] (HDString ''SDF'') 1200 = Inr [''GC'']"
proof -
  let ?t = "sign_transaction example_sdk example_tx ''GC''"
  have kp: "fromPublicKey example_sdk ''GS'' = Inr ''GS''" "publicKey example_sdk ''GS'' = ''GS''"
    by (simp_all add: example_sdk_def)
  have rd: "readChallengeTx example_sdk example_signed_by_client ''GS'' ''net'' (HDString ''SDF'') 1200
    = Inr \<lparr>tx = ?t, clientAccountID = ''GC'', matchedHomeDomain = ''SDF''\<rparr>"
    unfolding example_signed_by_client_def
    by (rule read_example) (simp_all add: sign_transaction_fields example_tx_fields)
  have sg: "signatures ?t
     = [\<lparr>hint = ''GS'', signature = ''GSnetGS''\<rparr>, \<lparr>hint = ''GC'', signature = ''GCnetGS''\<rparr>]"
    "hash example_sdk (Transaction ?t) = ''netGS''"
    by (simp_all add: example_tx_def sign_transaction_def build_def example_sdk_def env_hash_def)
  have g: "gatherTxSigners example_sdk (Transaction ?t) [''GS'', ''GC''] = Inr [''GS'', ''GC'']"
    unfolding gatherTxSigners_def env_signatures.simps sg
    by (simp add: example_sdk_def set_add_def)
  show ?thesis
    by (simp add: verifyChallengeTxSigners_def rd kp set_add_def g sg)
qed

text \<open>
  C3 (amended). verifyChallengeTxThreshold passes on an error of
  verifyChallengeTxSigners; otherwise it sums the weights of the signers returned, an
  address that is not a key of signerSummary counting 0 and raising nothing. If the
  sum is less than the threshold it throws InvalidSep10ChallengeError with the message
  "signers with weight <sum> do not meet threshold <threshold>" followed by one
  double-quote character; otherwise it returns the list that verifyChallengeTxSigners
  returned.
\<close>

theorem verifyChallengeTxThreshold_weights:
  "verifyChallengeTxThreshold sdk w server pp threshold summary hds now =
     (case verifyChallengeTxSigners sdk w server pp (map key summary) hds now of
        Inl e \<Rightarrow> Inl e
      | Inr found \<Rightarrow>
          if sum_list (map (sig_weight summary) found) < threshold
          then Inl (InvalidSep10ChallengeError
            (''signers with weight '' @ show_int (sum_list (map (sig_weight summary) found))
              @ '' do not meet threshold '' @ show_int threshold @ [CHR 0x22]))
          else Inr found)
   \<and> (\<forall>a. a \<notin> key ` set summary \<longrightarrow> sig_weight summary a = 0)"
  by (simp add: verifyChallengeTxThreshold_def sum_weights_sum_list sig_weight_missing
      split: sum.splits)

theorem verifyChallengeTxThreshold_weights_witness:
  "verifyChallengeTxThreshold example_sdk example_signed_challenge ''GS'' ''net'' 3
     [\<lparr>key = ''GC'', weight = 1\<rparr>, \<lparr>key = ''GD'', weight = 2\<rparr>] (HDString ''SDF'') 1200
     = Inr [''GC'', ''GD''] \<and>
   sig_weight [\<lparr>key = ''GC'', weight = 1\<rparr>, \<lparr>key = ''GD'', weight = 2\<rparr>] ''GE'' = 0"
  using verifyChallengeTxThreshold_weights [of example_sdk example_signed_challenge "''GS''" "''net''" 3
      "[\<lparr>key = ''GC'', weight = 1\<rparr>, \<lparr>key = ''GD'', weight = 2\<rparr>]" "HDString ''SDF''" 1200]
  by (simp add: example_signed_challenge_verify sig_weight_def)

theorem verifyChallengeTxThreshold_message_counterexample:
  "verifyChallengeTxSigners example_sdk example_signed_challenge ''GS'' ''net''
      (map key [\<lparr>key = ''GC'', weight = 1\<rparr>, \<lparr>key = ''GD'', weight = 2\<rparr>])
      (HDString ''SDF'') 1200 = Inr [''GC'', ''GD''] \<and>
   verifyChallengeTxThreshold example_sdk example_signed_challenge ''GS'' ''net'' 4
     [\<lparr>key = ''GC'', weight = 1\<rparr>, \<lparr>key = ''GD'', weight = 2\<rparr>] (HDString ''SDF'') 1200
     = Inl (InvalidSep10ChallengeError (''signers with weight 3 do not meet threshold 4'' @ [CHR 0x22])) \<and>
   verifyChallengeTxThreshold example_sdk example_signed_challenge ''GS'' ''net'' 4
     [\<lparr>key = ''GC'', weight = 1\<rparr>, \<lparr>key = ''GD'', weight = 2\<rparr>] (HDString ''SDF'') 1200
     \<noteq> Inl (InvalidSep10ChallengeError ''signers with weight 3 do not meet threshold 4'')"
  by (simp add: verifyChallengeTxThreshold_def example_signed_challenge_verify sig_weight_def
      show_int_small)


text \<open>
  C10. When signerSummary has several entries with one key, the weight counted for that
  signer is the weight of the first of them: for a summary whose first entry with key
  \<open>key e\<close> is \<open>e\<close>, the weight looked up, and the sum for the signer alone, is
  \<open>weight e\<close>, and a challenge whose only client signer found is \<open>key e\<close> is
  compared to the threshold with \<open>weight e\<close>.
\<close>

theorem first_duplicate_wins:
  assumes "\<forall>x \<in> set pre. key x \<noteq> key e"
  shows "sig_weight (pre @ e # post) (key e) = weight e
       \<and> sum_weights (pre @ e # post) [key e] 0 = weight e
       \<and> (verifyChallengeTxSigners sdk w server pp (map key (pre @ e # post)) hds now = Inr [key e]
          \<longrightarrow> verifyChallengeTxThreshold sdk w server pp threshold (pre @ e # post) hds now
               = (if weight e < threshold
                  then Inl (InvalidSep10ChallengeError
                    (''signers with weight '' @ show_int (weight e)
                      @ '' do not meet threshold '' @ show_int threshold @ [CHR 0x22]))
                  else Inr [key e]))"
proof (intro conjI impI)
  show f: "sig_weight (pre @ e # post) (key e) = weight e"
    by (rule sig_weight_first [OF assms])
  then show s: "sum_weights (pre @ e # post) [key e] 0 = weight e"
    by simp
  assume v: "verifyChallengeTxSigners sdk w server pp (map key (pre @ e # post)) hds now = Inr [key e]"
  show "verifyChallengeTxThreshold sdk w server pp threshold (pre @ e # post) hds now
               = (if weight e < threshold
                  then Inl (InvalidSep10ChallengeError
                    (''signers with weight '' @ show_int (weight e)
                      @ '' do not meet threshold '' @ show_int threshold @ [CHR 0x22]))
                  else Inr [key e])"
    unfolding verifyChallengeTxThreshold_found [OF v] by (simp add: f)
qed

theorem first_duplicate_wins_witness:
  "verifyChallengeTxThreshold example_sdk example_signed_by_client ''GS'' ''net'' 2
     ([] @ \<lparr>key = ''GC'', weight = 1\<rparr> # [\<lparr>key = ''GC'', weight = 5\<rparr>]) (HDString ''SDF'') 1200
     = Inl (InvalidSep10ChallengeError (''signers with weight 1 do not meet threshold 2'' @ [CHR 0x22]))"
proof -
  have h: "\<forall>x \<in> set ([] :: account_record_signer list). key x \<noteq> key \<lparr>key = ''GC'', weight = 1\<rparr>"
    by simp
  have v: "verifyChallengeTxSigners example_sdk example_signed_by_client ''GS'' ''net''
      (map key ([] @ \<lparr>key = ''GC'', weight = 1\<rparr> # [\<lparr>key = ''GC'', weight = 5\<rparr>]))
      (HDString ''SDF'') 1200 = Inr [key \<lparr>key = ''GC'', weight = 1\<rparr>]"
    by (simp add: example_signed_by_client_verify)
  from first_duplicate_wins [OF h, of "[\<lparr>key = ''GC'', weight = 5\<rparr>]" example_sdk
      example_signed_by_client "''GS''" "''net''" "HDString ''SDF''" 1200 2] v
  have "verifyChallengeTxThreshold example_sdk example_signed_by_client ''GS'' ''net'' 2
     ([] @ \<lparr>key = ''GC'', weight = 1\<rparr> # [\<lparr>key = ''GC'', weight = 5\<rparr>]) (HDString ''SDF'') 1200
     = (if weight \<lparr>key = ''GC'', weight = 1\<rparr> < 2
        then Inl (InvalidSep10ChallengeError
          (''signers with weight '' @ show_int (weight \<lparr>key = ''GC'', weight = 1\<rparr>)
            @ '' do not meet threshold '' @ show_int 2 @ [CHR 0x22]))
        else Inr [key \<lparr>key = ''GC'', weight = 1\<rparr>])"
    by blast
  then show ?thesis by (simp add: show_int_small)
qed

subsection \<open>Building and reading\<close>

lemma buildChallengeTx_Inr:
  assumes "buildChallengeTx sdk skp client domain timeout pp now val = Inr w"
  shows "\<not> startsWith client (CHR ''M'')"
    and "toXDR sdk (Transaction (sign_transaction sdk
           (build sdk (publicKey sdk skp) (- 1) pp now (now + timeout)
              [manageData (domain @ '' auth'') val client]) skp)) = Inr w"
  using assms by (auto simp: buildChallengeTx_def Let_def split: if_splits)

lemma readChallengeTx_Inr:
  assumes "readChallengeTx sdk w server pp hds now = Inr r"
  shows "\<exists>t opn rest.
      \<not> startsWith server (CHR ''M'') \<and>
      fromXDR sdk w pp = Inr (Transaction t) \<and> tx r = t \<and>
      parseInt (sequence t) = Some 0 \<and> source t = server \<and>
      operations t = opn # rest \<and>
      op_source opn = Some (clientAccountID r) \<and> clientAccountID r \<noteq> [] \<and>
      op_type opn = ''manageData'' \<and>
      validateTimebounds t now \<and>
      match_home_domain hds (op_name opn) = Some (matchedHomeDomain r) \<and>
      matchedHomeDomain r \<noteq> [] \<and>
      check_subsequent server rest = None"
proof -
  from assms have m: "\<not> startsWith server (CHR ''M'')"
    unfolding readChallengeTx_def by (simp split: if_splits)
  from assms m obtain e where e: "fromXDR sdk w pp = Inr e"
    unfolding readChallengeTx_def by (cases "fromXDR sdk w pp") simp_all
  from assms m e obtain t where t: "e = Transaction t"
    unfolding readChallengeTx_def by (cases e) simp_all
  from assms m e t have sq: "parseInt (sequence t) = Some 0" and src: "source t = server"
    unfolding readChallengeTx_def by (simp_all split: if_splits)
  from assms m e t sq src obtain opn rest where ops: "operations t = opn # rest"
    unfolding readChallengeTx_def by (cases "operations t") simp_all
  from assms m e t sq src ops obtain c where c: "op_source opn = Some c"
    unfolding readChallengeTx_def by (cases "op_source opn") simp_all
  from assms m e t sq src ops c have cne: "c \<noteq> []" and ty: "op_type opn = ''manageData''"
    unfolding readChallengeTx_def by (simp_all split: if_splits)
  from assms m e t sq src ops c cne ty
  have inf: "\<not> (case timeBounds t of None \<Rightarrow> False
      | Some tb \<Rightarrow> parseInt (maxTime tb) = Some (TimeoutInfinite sdk))"
    unfolding readChallengeTx_def by (simp split: if_splits)
  then have inf': "\<forall>tb. timeBounds t = Some tb \<longrightarrow> parseInt (maxTime tb) \<noteq> Some (TimeoutInfinite sdk)"
    by (simp split: option.splits)
  note nf = readChallengeTx_structure_ok [OF m e [unfolded t] sq src ops c cne ty inf', of hds now]
  from assms nf have v: "validateTimebounds t now"
    by (simp split: if_splits)
  from assms nf v have rest:
    "tx r = t \<and> clientAccountID r = c \<and>
     match_home_domain hds (op_name opn) = Some (matchedHomeDomain r) \<and>
     matchedHomeDomain r \<noteq> [] \<and> check_subsequent server rest = None"
    by (cases hds) (auto split: if_splits option.splits)
  with m e t sq src ops c cne ty v show ?thesis by auto
qed

text \<open>Reading what buildChallengeTx has built, when the codec gives back what was
  encoded and the clock is within the time bounds.\<close>

lemma read_built:
  assumes b: "buildChallengeTx sdk skp client domain timeout pp now val = Inr w"
    and rt: "\<forall>e. toXDR sdk e = Inr w \<longrightarrow> fromXDR sdk w pp = Inr e"
    and c: "client \<noteq> []"
    and s: "\<not> startsWith (publicKey sdk skp) (CHR ''M'')"
    and inf: "now + timeout \<noteq> TimeoutInfinite sdk"
    and t1: "now \<le> now'" and t2: "now' \<le> now + timeout"
  shows "readChallengeTx sdk w (publicKey sdk skp) pp hds now' =
    (if hds = HDFalsy \<or> hds = HDString []
     then Inl (InvalidSep10ChallengeError
       ''Invalid homeDomains: a home domain must be provided for verification'')
     else (case hds of
        HDOther ty \<Rightarrow> Inl (InvalidSep10ChallengeError
          (''Invalid homeDomains: homeDomains type is '' @ ty
             @ '' but should be a string or an array''))
      | _ \<Rightarrow>
       (case match_home_domain hds (domain @ '' auth'') of
          None \<Rightarrow> Inl domain_mismatch
        | Some matched \<Rightarrow>
           (if matched = [] then Inl domain_mismatch
            else Inr \<lparr>tx = sign_transaction sdk
                     (build sdk (publicKey sdk skp) (- 1) pp now (now + timeout)
                        [manageData (domain @ '' auth'') val client]) skp,
                   clientAccountID = client, matchedHomeDomain = matched\<rparr>))))"
proof -
  let ?opn = "manageData (domain @ '' auth'') val client"
  let ?t = "sign_transaction sdk
     (build sdk (publicKey sdk skp) (- 1) pp now (now + timeout) [?opn]) skp"
  from buildChallengeTx_Inr(2) [OF b] rt
  have h2: "fromXDR sdk w pp = Inr (Transaction ?t)" by blast
  have h3: "parseInt (sequence ?t) = Some 0"
    by (simp only: signed_build_fields parseInt_show_int)
  have h4: "source ?t = publicKey sdk skp" by (simp only: signed_build_fields)
  have h5: "operations ?t = ?opn # []" by (simp only: signed_build_fields)
  have h6: "op_source ?opn = Some client" by (simp add: manageData_def)
  have h8: "op_type ?opn = ''manageData''" by (simp add: manageData_def)
  have h9: "\<forall>tb. timeBounds ?t = Some tb \<longrightarrow> parseInt (maxTime tb) \<noteq> Some (TimeoutInfinite sdk)"
    using inf by (simp add: signed_build_fields parseInt_show_int)
  have v: "validateTimebounds ?t now'"
    using t1 t2 by (simp add: validateTimebounds_iff signed_build_fields parseInt_show_int)
  have n: "op_name ?opn = domain @ '' auth''" by (simp add: manageData_def)
  show ?thesis
    unfolding readChallengeTx_structure_ok [OF s h2 h3 h4 h5 h6 c h8 h9]
    by (simp only: v n check_subsequent.simps option.case not_True_eq_False if_False)
qed

lemma example_sdk_codec:
  "toXDR example_sdk e = Inr e" "fromXDR example_sdk w pp = Inr w"
  "publicKey example_sdk k = k" "TimeoutInfinite example_sdk = 0"
  by (simp_all add: example_sdk_def)

lemma example_build:
  "buildChallengeTx example_sdk ''GS'' ''GC'' ''SDF'' 300 ''net'' 1000 ''nonce'' = Inr example_challenge"
  "buildChallengeTx example_sdk ''GS'' ''GC'' [] 300 ''net'' 1000 ''nonce'' = Inr example_empty_domain"
  by (simp_all add: buildChallengeTx_def example_sdk_codec example_challenge_def example_tx_def
      example_empty_domain_def)

lemma find_first:
  "List.find P ds = Some m \<longleftrightarrow>
     (\<exists>before after. ds = before @ m # after \<and> P m \<and> (\<forall>x \<in> set before. \<not> P x))"
proof (induction ds)
  case Nil
  show ?case by simp
next
  case (Cons x xs)
  show ?case
  proof (cases "P x")
    case True
    have "(\<exists>before after. x # xs = before @ m # after \<and> P m \<and> (\<forall>y \<in> set before. \<not> P y))
        \<longleftrightarrow> x = m"
    proof
      assume "\<exists>before after. x # xs = before @ m # after \<and> P m \<and> (\<forall>y \<in> set before. \<not> P y)"
      then obtain before after where d: "x # xs = before @ m # after" "\<forall>y \<in> set before. \<not> P y"
        by blast
      show "x = m"
      proof (cases before)
        case Nil
        with d(1) show ?thesis by simp
      next
        case (Cons b bs)
        with d True show ?thesis by simp
      qed
    next
      assume "x = m"
      with True have "x # xs = [] @ m # xs \<and> P m \<and> (\<forall>y \<in> set []. \<not> P y)" by simp
      then show "\<exists>before after. x # xs = before @ m # after \<and> P m \<and> (\<forall>y \<in> set before. \<not> P y)"
        by blast
    qed
    with True show ?thesis by simp
  next
    case False
    have "(\<exists>before after. x # xs = before @ m # after \<and> P m \<and> (\<forall>y \<in> set before. \<not> P y))
        \<longleftrightarrow> (\<exists>before after. xs = before @ m # after \<and> P m \<and> (\<forall>y \<in> set before. \<not> P y))"
    proof
      assume "\<exists>before after. x # xs = before @ m # after \<and> P m \<and> (\<forall>y \<in> set before. \<not> P y)"
      then obtain before after where d: "x # xs = before @ m # after" "P m"
          "\<forall>y \<in> set before. \<not> P y"
        by blast
      show "\<exists>before after. xs = before @ m # after \<and> P m \<and> (\<forall>y \<in> set before. \<not> P y)"
      proof (cases before)
        case Nil
        with d False show ?thesis by simp
      next
        case (Cons b bs)
        with d have "xs = bs @ m # after \<and> P m \<and> (\<forall>y \<in> set bs. \<not> P y)" by simp
        then show ?thesis by blast
      qed
    next
      assume "\<exists>before after. xs = before @ m # after \<and> P m \<and> (\<forall>y \<in> set before. \<not> P y)"
      then obtain before after where d: "xs = before @ m # after" "P m"
          "\<forall>y \<in> set before. \<not> P y"
        by blast
      with False have "x # xs = (x # before) @ m # after \<and> P m \<and> (\<forall>y \<in> set (x # before). \<not> P y)"
        by simp
      then show "\<exists>before after. x # xs = before @ m # after \<and> P m \<and> (\<forall>y \<in> set before. \<not> P y)"
        by blast
    qed
    with False Cons.IH show ?thesis by simp
  qed
qed

lemma match_home_domain_array:
  "match_home_domain (HDArray ds) name = Some m \<longleftrightarrow>
     (\<exists>before after. ds = before @ m # after \<and> m @ '' auth'' = name \<and>
        (\<forall>x \<in> set before. x @ '' auth'' \<noteq> name))"
  unfolding match_home_domain.simps by (rule find_first)

text \<open>
  C6 (amended). A multiplexed address (first character M) is rejected at once, whatever
  the other arguments are, in the two places where the challenge functions take an
  account ID as an argument: buildChallengeTx rejects such a clientAccountID before it
  builds anything, and readChallengeTx rejects such a serverAccountID before it decodes
  the challenge. readChallengeTx makes no such check on the source of the first
  operation: it requires only that the source, as the base SDK has decoded it, is
  present and not empty, and that decoded source is the client account ID returned.
\<close>

theorem multiplexed_rejected_eagerly:
  "(startsWith clientAccount (CHR ''M'')
      \<longrightarrow> buildChallengeTx sdk serverKeypair clientAccount homeDomain timeout pp now val
            = Inl (Error ''Invalid clientAccountID: multiplexed accounts are not supported.''))
   \<and> (startsWith serverAccountID (CHR ''M'')
      \<longrightarrow> readChallengeTx sdk w serverAccountID pp hds now
            = Inl (Error ''Invalid serverAccountID: multiplexed accounts are not supported.''))
   \<and> (\<forall>r. readChallengeTx sdk w serverAccountID pp hds now = Inr r
      \<longrightarrow> (\<exists>t opn rest. fromXDR sdk w pp = Inr (Transaction t) \<and> operations t = opn # rest \<and>
             op_source opn = Some (clientAccountID r) \<and> clientAccountID r \<noteq> []))"
proof (intro conjI allI impI)
  assume "startsWith clientAccount (CHR ''M'')"
  then show "buildChallengeTx sdk serverKeypair clientAccount homeDomain timeout pp now val
            = Inl (Error ''Invalid clientAccountID: multiplexed accounts are not supported.'')"
    by (simp add: buildChallengeTx_def)
next
  assume "startsWith serverAccountID (CHR ''M'')"
  then show "readChallengeTx sdk w serverAccountID pp hds now
            = Inl (Error ''Invalid serverAccountID: multiplexed accounts are not supported.'')"
    by (simp add: readChallengeTx_def)
next
  fix r
  assume "readChallengeTx sdk w serverAccountID pp hds now = Inr r"
  from readChallengeTx_Inr [OF this]
  show "\<exists>t opn rest. fromXDR sdk w pp = Inr (Transaction t) \<and> operations t = opn # rest \<and>
             op_source opn = Some (clientAccountID r) \<and> clientAccountID r \<noteq> []"
    by blast
qed


theorem multiplexed_rejected_eagerly_witness:
  "buildChallengeTx example_sdk ''GS''
      ''MAAAAAAAAAAAAAB7BQ2L7E5NBWMXDUCMZSIPOBKRDSBYVLMXGSSKF6YNPIB7Y77ITLVL6'' ''SDF'' 300 ''net''
      1000 ''nonce''
     = Inl (Error ''Invalid clientAccountID: multiplexed accounts are not supported.'') \<and>
   readChallengeTx example_sdk example_challenge
      ''MAAAAAAAAAAAAAB7BQ2L7E5NBWMXDUCMZSIPOBKRDSBYVLMXGSSKF6YNPIB7Y77ITLVL6'' ''net''
      (HDString ''SDF'') 1000
     = Inl (Error ''Invalid serverAccountID: multiplexed accounts are not supported.'')"
  using multiplexed_rejected_eagerly
    [where clientAccount = "''MAAAAAAAAAAAAAB7BQ2L7E5NBWMXDUCMZSIPOBKRDSBYVLMXGSSKF6YNPIB7Y77ITLVL6''"
      and serverAccountID = "''MAAAAAAAAAAAAAB7BQ2L7E5NBWMXDUCMZSIPOBKRDSBYVLMXGSSKF6YNPIB7Y77ITLVL6''"
      and sdk = example_sdk and serverKeypair = "''GS''" and homeDomain = "''SDF''"
      and timeout = 300 and pp = "''net''" and now = 1000 and val = "''nonce''"
      and w = example_challenge and hds = "HDString ''SDF''"]
  by simp

theorem multiplexed_client_counterexample:
  "startsWith ''MAAAAAAAAAAAAAB7BQ2L7E5NBWMXDUCMZSIPOBKRDSBYVLMXGSSKF6YNPIB7Y77ITLVL6'' (CHR ''M'') \<and>
   example_muxed_challenge = Transaction (sign_transaction example_sdk
     (build example_sdk ''GS'' (- 1) ''net'' 1000 1300
        [manageData ''SDF auth'' ''nonce''
           ''MAAAAAAAAAAAAAB7BQ2L7E5NBWMXDUCMZSIPOBKRDSBYVLMXGSSKF6YNPIB7Y77ITLVL6''])
     ''GS'') \<and>
   readChallengeTx example_muxed_sdk example_muxed_challenge ''GS'' ''net'' (HDString ''SDF'') 1200
     = Inr \<lparr>tx = sign_transaction example_sdk
              (build example_sdk ''GS'' (- 1) ''net'' 1000 1300
                [manageData ''SDF auth'' ''nonce''
                  ''GA7QYNF7SOWQ3GLR2BGMZEHXAVIRZA4KVWLTJJFC7MGXUA74P7UJVSGZ''])
              ''GS'',
            clientAccountID = ''GA7QYNF7SOWQ3GLR2BGMZEHXAVIRZA4KVWLTJJFC7MGXUA74P7UJVSGZ'',
            matchedHomeDomain = ''SDF''\<rparr>"
proof -
  let ?g = "''GA7QYNF7SOWQ3GLR2BGMZEHXAVIRZA4KVWLTJJFC7MGXUA74P7UJVSGZ''"
  let ?t = "sign_transaction example_sdk
     (build example_sdk ''GS'' (- 1) ''net'' 1000 1300 [manageData ''SDF auth'' ''nonce'' ?g]) ''GS''"
  have h1: "\<not> startsWith ''GS'' (CHR ''M'')" by simp
  have h2: "fromXDR example_muxed_sdk example_muxed_challenge ''net'' = Inr (Transaction ?t)"
    by (simp add: example_muxed_sdk_def example_muxed_challenge_def example_decode_def
        example_demux_def sign_transaction_def build_def manageData_def example_sdk_def env_hash_def)
  have h3: "parseInt (sequence ?t) = Some 0"
    by (simp only: signed_build_fields parseInt_show_int)
  have h4: "source ?t = ''GS''" by (simp only: signed_build_fields)
  have h5: "operations ?t = manageData ''SDF auth'' ''nonce'' ?g # []"
    by (simp only: signed_build_fields)
  have h6: "op_source (manageData ''SDF auth'' ''nonce'' ?g) = Some ?g"
    by (simp add: manageData_def)
  have h7: "?g \<noteq> []" by simp
  have h8: "op_type (manageData ''SDF auth'' ''nonce'' ?g) = ''manageData''"
    by (simp add: manageData_def)
  have h9: "\<forall>tb. timeBounds ?t = Some tb
      \<longrightarrow> parseInt (maxTime tb) \<noteq> Some (TimeoutInfinite example_muxed_sdk)"
    by (simp add: signed_build_fields parseInt_show_int example_muxed_sdk_def example_sdk_def)
  have r: "readChallengeTx example_muxed_sdk example_muxed_challenge ''GS'' ''net''
      (HDString ''SDF'') 1200
     = Inr \<lparr>tx = ?t, clientAccountID = ?g, matchedHomeDomain = ''SDF''\<rparr>"
    by (simp add: readChallengeTx_structure_ok [OF h1 h2 h3 h4 h5 h6 h7 h8 h9]
        validateTimebounds_iff signed_build_fields parseInt_show_int manageData_def)
  then show ?thesis by (simp add: example_muxed_challenge_def)
qed






text \<open>
  C9. When homeDomains is a string and readChallengeTx succeeds, the key name of the
  first operation is that string followed by " auth", and the string is the matched
  home domain. When homeDomains is an array and readChallengeTx succeeds, the matched
  home domain is the first element of the array that, followed by " auth", is the key
  name. Conversely, for a challenge that has passed the earlier checks: a non-empty
  string that matches is accepted as the matched home domain and one that does not is
  refused with the domain-mismatch error; an array of which no element matches is
  refused with the domain-mismatch error, and otherwise its first matching element,
  if not empty, is accepted as the matched home domain (the challenge is then returned
  with the client account ID, unless an operation after the first is refused). So a
  challenge built with the home domain SDF is read successfully against
  [Test, SDF, Other], with SDF as the matched home domain, and is refused with the
  domain-mismatch error against [Test, Other].
\<close>

theorem readChallengeTx_home_domains:
  "(\<forall>r. readChallengeTx sdk w server pp (HDString d) now = Inr r
      \<longrightarrow> matchedHomeDomain r = d \<and>
          (\<exists>t opn rest. fromXDR sdk w pp = Inr (Transaction t) \<and> operations t = opn # rest \<and>
             op_name opn = d @ '' auth''))
   \<and> (\<forall>r. readChallengeTx sdk w server pp (HDArray ds) now = Inr r
      \<longrightarrow> (\<exists>t opn rest before after.
             fromXDR sdk w pp = Inr (Transaction t) \<and> operations t = opn # rest \<and>
             ds = before @ matchedHomeDomain r # after \<and>
             matchedHomeDomain r @ '' auth'' = op_name opn \<and>
             (\<forall>x \<in> set before. x @ '' auth'' \<noteq> op_name opn)))
   \<and> (\<forall>t opn rest c.
         \<not> startsWith server (CHR ''M'') \<and> fromXDR sdk w pp = Inr (Transaction t) \<and>
         parseInt (sequence t) = Some 0 \<and> source t = server \<and> operations t = opn # rest \<and>
         op_source opn = Some c \<and> c \<noteq> [] \<and> op_type opn = ''manageData'' \<and>
         (\<forall>tb. timeBounds t = Some tb \<longrightarrow> parseInt (maxTime tb) \<noteq> Some (TimeoutInfinite sdk)) \<and>
         validateTimebounds t now
       \<longrightarrow> readChallengeTx sdk w server pp (HDString d) now
             = (if d = []
                then Inl (InvalidSep10ChallengeError
                  ''Invalid homeDomains: a home domain must be provided for verification'')
                else if d @ '' auth'' = op_name opn
                then (case check_subsequent server rest of
                        Some e \<Rightarrow> Inl e
                      | None \<Rightarrow> Inr \<lparr>tx = t, clientAccountID = c, matchedHomeDomain = d\<rparr>)
                else Inl domain_mismatch) \<and>
           ((\<forall>x \<in> set ds. x @ '' auth'' \<noteq> op_name opn)
             \<longrightarrow> readChallengeTx sdk w server pp (HDArray ds) now = Inl domain_mismatch) \<and>
           (\<forall>before m after.
              ds = before @ m # after \<and> m @ '' auth'' = op_name opn \<and>
              (\<forall>x \<in> set before. x @ '' auth'' \<noteq> op_name opn)
            \<longrightarrow> readChallengeTx sdk w server pp (HDArray ds) now
                  = (if m = [] then Inl domain_mismatch
                     else (case check_subsequent server rest of
                             Some e \<Rightarrow> Inl e
                           | None \<Rightarrow> Inr \<lparr>tx = t, clientAccountID = c,
                               matchedHomeDomain = m\<rparr>))))
   \<and> (\<forall>serverKeypair clientAccount timeout built val.
         buildChallengeTx sdk serverKeypair clientAccount ''SDF'' timeout pp built val = Inr w \<and>
         (\<forall>e. toXDR sdk e = Inr w \<longrightarrow> fromXDR sdk w pp = Inr e) \<and>
         clientAccount \<noteq> [] \<and> server = publicKey sdk serverKeypair \<and>
         \<not> startsWith server (CHR ''M'') \<and> built + timeout \<noteq> TimeoutInfinite sdk \<and>
         built \<le> now \<and> now \<le> built + timeout
       \<longrightarrow> (\<exists>r. readChallengeTx sdk w server pp (HDArray [''Test'', ''SDF'', ''Other'']) now = Inr r \<and>
                clientAccountID r = clientAccount \<and> matchedHomeDomain r = ''SDF'') \<and>
           readChallengeTx sdk w server pp (HDArray [''Test'', ''Other'']) now = Inl domain_mismatch)"
proof (intro conjI allI impI)
  fix r
  assume a: "readChallengeTx sdk w server pp (HDString d) now = Inr r"
  from readChallengeTx_Inr [OF a] obtain t opn rest where
    f: "fromXDR sdk w pp = Inr (Transaction t)" "operations t = opn # rest"
       "match_home_domain (HDString d) (op_name opn) = Some (matchedHomeDomain r)"
    by blast
  from f(3) have m: "matchedHomeDomain r = d \<and> op_name opn = d @ '' auth''"
    by (simp split: if_splits)
  then show "matchedHomeDomain r = d" by simp
  from f m show "\<exists>t opn rest. fromXDR sdk w pp = Inr (Transaction t) \<and> operations t = opn # rest \<and>
             op_name opn = d @ '' auth''"
    by blast
next
  fix r
  assume a: "readChallengeTx sdk w server pp (HDArray ds) now = Inr r"
  from readChallengeTx_Inr [OF a] obtain t opn rest where
    f: "fromXDR sdk w pp = Inr (Transaction t)" "operations t = opn # rest"
       "match_home_domain (HDArray ds) (op_name opn) = Some (matchedHomeDomain r)"
    by blast
  from f(3) [unfolded match_home_domain_array] f(1,2)
  show "\<exists>t opn rest before after.
             fromXDR sdk w pp = Inr (Transaction t) \<and> operations t = opn # rest \<and>
             ds = before @ matchedHomeDomain r # after \<and>
             matchedHomeDomain r @ '' auth'' = op_name opn \<and>
             (\<forall>x \<in> set before. x @ '' auth'' \<noteq> op_name opn)"
    by blast
next
  fix t opn rest c
  assume a: "\<not> startsWith server (CHR ''M'') \<and> fromXDR sdk w pp = Inr (Transaction t) \<and>
         parseInt (sequence t) = Some 0 \<and> source t = server \<and> operations t = opn # rest \<and>
         op_source opn = Some c \<and> c \<noteq> [] \<and> op_type opn = ''manageData'' \<and>
         (\<forall>tb. timeBounds t = Some tb \<longrightarrow> parseInt (maxTime tb) \<noteq> Some (TimeoutInfinite sdk)) \<and>
         validateTimebounds t now"
  then have nf: "readChallengeTx sdk w server pp hds now =
    (if \<not> validateTimebounds t now then Inl expired
     else if hds = HDFalsy \<or> hds = HDString []
     then Inl (InvalidSep10ChallengeError
       ''Invalid homeDomains: a home domain must be provided for verification'')
     else (case hds of
        HDOther ty \<Rightarrow> Inl (InvalidSep10ChallengeError
          (''Invalid homeDomains: homeDomains type is '' @ ty
             @ '' but should be a string or an array''))
      | _ \<Rightarrow>
       (case match_home_domain hds (op_name opn) of
          None \<Rightarrow> Inl domain_mismatch
        | Some matched \<Rightarrow>
           (if matched = [] then Inl domain_mismatch
            else (case check_subsequent server rest of
                    Some e \<Rightarrow> Inl e
                  | None \<Rightarrow> Inr \<lparr>tx = t, clientAccountID = c,
                      matchedHomeDomain = matched\<rparr>)))))" for hds
    by (intro readChallengeTx_structure_ok) simp_all
  from a have v: "validateTimebounds t now" by simp
  show "readChallengeTx sdk w server pp (HDString d) now
             = (if d = []
                then Inl (InvalidSep10ChallengeError
                  ''Invalid homeDomains: a home domain must be provided for verification'')
                else if d @ '' auth'' = op_name opn
                then (case check_subsequent server rest of
                        Some e \<Rightarrow> Inl e
                      | None \<Rightarrow> Inr \<lparr>tx = t, clientAccountID = c, matchedHomeDomain = d\<rparr>)
                else Inl domain_mismatch)"
    unfolding nf by (simp add: v)
  {
    assume "\<forall>x \<in> set ds. x @ '' auth'' \<noteq> op_name opn"
    then have fn: "List.find (\<lambda>domain. domain @ '' auth'' = op_name opn) ds = None"
      unfolding find_None_iff by blast
    show "readChallengeTx sdk w server pp (HDArray ds) now = Inl domain_mismatch"
      unfolding nf by (simp add: v fn)
  }
  {
    fix before m after
    assume "ds = before @ m # after \<and> m @ '' auth'' = op_name opn \<and>
              (\<forall>x \<in> set before. x @ '' auth'' \<noteq> op_name opn)"
    then have fm: "match_home_domain (HDArray ds) (op_name opn) = Some m"
      unfolding match_home_domain_array by blast
    show "readChallengeTx sdk w server pp (HDArray ds) now
                  = (if m = [] then Inl domain_mismatch
                     else (case check_subsequent server rest of
                             Some e \<Rightarrow> Inl e
                           | None \<Rightarrow> Inr \<lparr>tx = t, clientAccountID = c,
                               matchedHomeDomain = m\<rparr>))"
      unfolding nf by (simp only: v fm not_True_eq_False if_False home_domains.distinct
          home_domains.case option.case simp_thms)
  }
next
  fix serverKeypair clientAccount timeout built val
  assume a: "buildChallengeTx sdk serverKeypair clientAccount ''SDF'' timeout pp built val = Inr w \<and>
         (\<forall>e. toXDR sdk e = Inr w \<longrightarrow> fromXDR sdk w pp = Inr e) \<and>
         clientAccount \<noteq> [] \<and> server = publicKey sdk serverKeypair \<and>
         \<not> startsWith server (CHR ''M'') \<and> built + timeout \<noteq> TimeoutInfinite sdk \<and>
         built \<le> now \<and> now \<le> built + timeout"
  then have rb: "readChallengeTx sdk w server pp hds now =
    (if hds = HDFalsy \<or> hds = HDString []
     then Inl (InvalidSep10ChallengeError
       ''Invalid homeDomains: a home domain must be provided for verification'')
     else (case hds of
        HDOther ty \<Rightarrow> Inl (InvalidSep10ChallengeError
          (''Invalid homeDomains: homeDomains type is '' @ ty
             @ '' but should be a string or an array''))
      | _ \<Rightarrow>
       (case match_home_domain hds (''SDF'' @ '' auth'') of
          None \<Rightarrow> Inl domain_mismatch
        | Some matched \<Rightarrow>
           (if matched = [] then Inl domain_mismatch
            else Inr \<lparr>tx = sign_transaction sdk
                     (build sdk (publicKey sdk serverKeypair) (- 1) pp built (built + timeout)
                        [manageData (''SDF'' @ '' auth'') val clientAccount]) serverKeypair,
                   clientAccountID = clientAccount, matchedHomeDomain = matched\<rparr>))))" for hds
    using read_built [of sdk serverKeypair clientAccount "''SDF''" timeout pp built val w now hds]
    by blast
  show "\<exists>r. readChallengeTx sdk w server pp (HDArray [''Test'', ''SDF'', ''Other'']) now = Inr r \<and>
                clientAccountID r = clientAccount \<and> matchedHomeDomain r = ''SDF''"
    by (simp add: rb)
  show "readChallengeTx sdk w server pp (HDArray [''Test'', ''Other'']) now = Inl domain_mismatch"
    by (simp add: rb)
qed


theorem readChallengeTx_home_domains_witness:
  "(\<exists>r. readChallengeTx example_sdk example_challenge ''GS'' ''net''
          (HDArray [''Test'', ''SDF'', ''Other'']) 1200 = Inr r \<and>
        clientAccountID r = ''GC'' \<and> matchedHomeDomain r = ''SDF'') \<and>
   readChallengeTx example_sdk example_challenge ''GS'' ''net'' (HDArray [''Test'', ''Other'']) 1200
     = Inl (InvalidSep10ChallengeError
         (''Invalid homeDomains: the transaction'' @ [CHR 0x27]
           @ ''s operation key name does not match the expected home domain'')) \<and>
   readChallengeTx example_sdk example_challenge ''GS'' ''net'' (HDString ''SDF'') 1200
     = Inr \<lparr>tx = example_tx, clientAccountID = ''GC'', matchedHomeDomain = ''SDF''\<rparr> \<and>
   readChallengeTx example_sdk example_challenge ''GS'' ''net'' (HDArray [''Test'', ''SDF'']) 1200
     = Inr \<lparr>tx = example_tx, clientAccountID = ''GC'', matchedHomeDomain = ''SDF''\<rparr>"
proof -
  let ?opn = "manageData ''SDF auth'' ''nonce'' ''GC''"
  note inst = readChallengeTx_home_domains
    [where sdk = example_sdk and w = example_challenge and server = "''GS''" and pp = "''net''"
      and now = 1200 and d = "''SDF''" and ds = "[''Test'', ''SDF'']"]
  have hyp: "buildChallengeTx example_sdk ''GS'' ''GC'' ''SDF'' 300 ''net'' 1000 ''nonce''
        = Inr example_challenge \<and>
      (\<forall>e. toXDR example_sdk e = Inr example_challenge
         \<longrightarrow> fromXDR example_sdk example_challenge ''net'' = Inr e) \<and>
      ''GC'' \<noteq> [] \<and> ''GS'' = publicKey example_sdk ''GS'' \<and>
      \<not> startsWith ''GS'' (CHR ''M'') \<and> 1000 + 300 \<noteq> TimeoutInfinite example_sdk \<and>
      (1000 :: int) \<le> 1200 \<and> (1200 :: int) \<le> 1000 + 300"
    by (simp add: example_build example_sdk_codec)
  from inst hyp
  have a: "(\<exists>r. readChallengeTx example_sdk example_challenge ''GS'' ''net''
          (HDArray [''Test'', ''SDF'', ''Other'']) 1200 = Inr r \<and>
        clientAccountID r = ''GC'' \<and> matchedHomeDomain r = ''SDF'') \<and>
      readChallengeTx example_sdk example_challenge ''GS'' ''net'' (HDArray [''Test'', ''Other'']) 1200
        = Inl domain_mismatch"
    by blast
  have st: "\<not> startsWith ''GS'' (CHR ''M'') \<and>
      fromXDR example_sdk example_challenge ''net'' = Inr (Transaction example_tx) \<and>
      parseInt (sequence example_tx) = Some 0 \<and> source example_tx = ''GS'' \<and>
      operations example_tx = ?opn # [] \<and>
      op_source ?opn = Some ''GC'' \<and> ''GC'' \<noteq> [] \<and> op_type ?opn = ''manageData'' \<and>
      (\<forall>tb. timeBounds example_tx = Some tb
         \<longrightarrow> parseInt (maxTime tb) \<noteq> Some (TimeoutInfinite example_sdk)) \<and>
      validateTimebounds example_tx 1200"
    by (simp add: example_sdk_codec example_challenge_def example_tx_fields manageData_def
        validateTimebounds_iff parseInt_show_int)
  from inst st
  have b: "readChallengeTx example_sdk example_challenge ''GS'' ''net'' (HDString ''SDF'') 1200
      = (if ''SDF'' = []
         then Inl (InvalidSep10ChallengeError
           ''Invalid homeDomains: a home domain must be provided for verification'')
         else if ''SDF'' @ '' auth'' = op_name ?opn
         then (case check_subsequent ''GS'' [] of
                 Some e \<Rightarrow> Inl e
               | None \<Rightarrow> Inr \<lparr>tx = example_tx, clientAccountID = ''GC'',
                   matchedHomeDomain = ''SDF''\<rparr>)
         else Inl domain_mismatch)"
    by blast
  have el: "[''Test'', ''SDF''] = [''Test''] @ ''SDF'' # [] \<and> ''SDF'' @ '' auth'' = op_name ?opn \<and>
      (\<forall>x \<in> set [''Test'']. x @ '' auth'' \<noteq> op_name ?opn)"
    by (simp add: manageData_def)
  from inst st el
  have c: "readChallengeTx example_sdk example_challenge ''GS'' ''net'' (HDArray [''Test'', ''SDF'']) 1200
      = (if ''SDF'' = [] then Inl domain_mismatch
         else (case check_subsequent ''GS'' [] of
                 Some e \<Rightarrow> Inl e
               | None \<Rightarrow> Inr \<lparr>tx = example_tx, clientAccountID = ''GC'',
                   matchedHomeDomain = ''SDF''\<rparr>))"
    by blast
  from a b c show ?thesis by (simp add: domain_mismatch_def manageData_def)
qed

end
